theory Spec2Isabelle
  imports Main
begin

section \<open>The exact-in exit handler\<close>

text \<open>
  A shallow embedding of \<^verbatim>\<open>src/services/balancer/pools/exits/handlers/exact-in-exit.handler.ts\<close>:
  the class \<^verbatim>\<open>ExactInExitHandler\<close> with its methods \<^verbatim>\<open>exit\<close>, \<^verbatim>\<open>queryExit\<close>,
  \<^verbatim>\<open>getSingleAmountOut\<close>, \<^verbatim>\<open>getAmountsOut\<close>, \<^verbatim>\<open>getSdkPool\<close>, \<^verbatim>\<open>setLastExitRes\<close> and
  \<^verbatim>\<open>getEvmPriceImpact\<close>.

  The handler mutates one field, \<^verbatim>\<open>lastExitRes\<close>; every method of the model takes the
  handler and returns the handler it leaves behind. Every \<^verbatim>\<open>throw\<close> is a value of the
  type \<open>error\<close>. The calls that leave the handler (signer, pool registry, pool handle,
  exception sink, transaction submission) are listed, in the order they are made, in the
  third component of each result.
\<close>

subsection \<open>Data\<close>

type_synonym exn = string

text \<open>
  One constructor per \<^verbatim>\<open>throw\<close> of the file, named after the error taxonomy; the
  message of the source is given beside each. \<open>Thrown\<close> is an exception of a callee that
  the handler does not catch, \<open>TypeError\<close> the property read on \<^verbatim>\<open>amountsOut[0]\<close> when
  the list is empty.
\<close>

datatype error =
    PoolNotFound string                  \<comment> \<open>\<^verbatim>\<open>'Failed to find pool: ' + id\<close>\<close>
  | TokenNotFound string "string list"   \<comment> \<open>\<^verbatim>\<open>'Could not find exit token in pool tokens list: ...'\<close>\<close>
  | ExitConstructionFailed               \<comment> \<open>\<^verbatim>\<open>'Failed to construct exit.'\<close>\<close>
  | PriceImpactUnavailable               \<comment> \<open>\<^verbatim>\<open>'Failed to calculate price impact.'\<close>\<close>
  | TypeError
  | Thrown exn

record TokenInfo =
  address :: string
  decimals :: int

record PoolToken =
  address :: string
  decimals :: "int option"

record Pool =
  pool_id :: string
  address :: string
  tokens :: "PoolToken list"

record AmountOut =
  address :: string
  amount_value :: string

record ExitPoolRequest =
  assets :: "string list"

record ExitAttributes =
  exitPoolRequest :: ExitPoolRequest

record ExitExactInResponse =
  to :: string
  data :: string
  attributes :: ExitAttributes
  expectedAmountsOut :: "string list"

text \<open>
  The pool handle of the SDK. Both methods may throw (\<open>Inl\<close>). \<^verbatim>\<open>calcPriceImpact\<close>
  returns a string, which the handler tests for truthiness.
\<close>

record PoolWithMethods =
  buildExitExactBPTIn ::
    "string \<Rightarrow> string \<Rightarrow> string \<Rightarrow> bool \<Rightarrow> string option \<Rightarrow> exn + ExitExactInResponse"
  calcPriceImpact :: "string list \<Rightarrow> string \<Rightarrow> bool \<Rightarrow> exn + string"

text \<open>
  The signer of \<^verbatim>\<open>ExitParams\<close>: the outcome of \<^verbatim>\<open>signer.getAddress()\<close> and of
  \<^verbatim>\<open>new TransactionBuilder(signer).raw.sendTransaction({ to, data })\<close>.
\<close>

record Signer =
  getAddress :: "exn + string"
  sendTransaction :: "string \<Rightarrow> string \<Rightarrow> exn + string"

text \<open>
  \<^verbatim>\<open>ExitParams\<close>. The slippage is a whole number of basis points, and its \<^verbatim>\<open>toString()\<close>
  is its decimal spelling. The token map is the list of its keys and values, in the
  order of \<^verbatim>\<open>Object.keys\<close>.
\<close>

record ExitParams =
  signer :: Signer
  tokenInfo :: "(string \<times> TokenInfo) list"
  bptIn :: string
  slippageBsp :: int
  amountsOut :: "AmountOut list"

record QueryOutput =
  amountsOut :: "string \<rightharpoonup> string"
  priceImpact :: string
  txReady :: bool

record ExactInExitHandler =
  pool :: Pool
  lastExitRes :: "ExitExactInResponse option"

text \<open>The calls that leave the handler.\<close>

datatype call =
    SignerGetAddress
  | PoolsFind string
  | BuildExitExactBPTIn string string string bool "string option"
  | CalcPriceImpact "string list" string bool
  | CaptureBalancerException exn
  | SendTransaction string string

text \<open>
  The functions the file imports and whose source is not part of it are parameters of the
  model: \<^verbatim>\<open>pools.find\<close> of \<^verbatim>\<open>getBalancerSDK()\<close>; \<^verbatim>\<open>selectByAddress\<close>,
  \<^verbatim>\<open>formatAddressForSor\<close>, \<^verbatim>\<open>isSameAddress\<close>, \<^verbatim>\<open>removeAddress\<close> and \<^verbatim>\<open>indexOfAddress\<close> of
  \<^verbatim>\<open>@/lib/utils\<close>; \<^verbatim>\<open>flatTokenTree\<close>; the constant \<^verbatim>\<open>NATIVE_ASSET_ADDRESS\<close>;
  \<^verbatim>\<open>getAddress\<close>, \<^verbatim>\<open>parseFixed\<close> and \<^verbatim>\<open>formatFixed\<close> of the ethers library; and
  \<^verbatim>\<open>String.prototype.toLowerCase\<close>. The helpers of \<^verbatim>\<open>@/lib/utils\<close> have the types of
  their use and return normally; the three library functions may throw.

  The second argument of \<^verbatim>\<open>isSameAddress\<close> and the first of \<^verbatim>\<open>formatFixed\<close> are options:
  the handler passes \<^verbatim>\<open>tokensOut[i]\<close> and \<^verbatim>\<open>amountsOut[tokenOutIndex]\<close>, which are
  \<^verbatim>\<open>undefined\<close> (\<open>None\<close>) when the index is out of range.
\<close>

record deps =
  pools_find :: "string \<Rightarrow> exn + PoolWithMethods option"
  selectByAddress :: "(string \<times> TokenInfo) list \<Rightarrow> string \<Rightarrow> TokenInfo option"
  formatAddressForSor :: "string \<Rightarrow> string"
  isSameAddress :: "string \<Rightarrow> string option \<Rightarrow> bool"
  removeAddress :: "string \<Rightarrow> string list \<Rightarrow> string list"
  indexOfAddress :: "string list \<Rightarrow> string \<Rightarrow> int"
  flatTokenTree :: "Pool \<Rightarrow> PoolToken list"
  NATIVE_ASSET_ADDRESS :: string
  getAddress_ethers :: "string \<Rightarrow> exn + string"
  parseFixed :: "string \<Rightarrow> int \<Rightarrow> exn + int"
  formatFixed :: "string option \<Rightarrow> int \<Rightarrow> exn + string"
  toLowerCase :: "string \<Rightarrow> string"

subsection \<open>Decimal strings\<close>

definition digit_char :: "nat \<Rightarrow> char" where
  "digit_char d = ''0123456789'' ! (d mod 10)"

definition digit_val :: "char \<Rightarrow> nat" where
  "digit_val c = of_char c - 48"

definition is_digit :: "char \<Rightarrow> bool" where
  "is_digit c = (48 \<le> (of_char c :: nat) \<and> (of_char c :: nat) \<le> 57)"

fun digits_of_nat :: "nat \<Rightarrow> string" where
  "digits_of_nat n =
     (if n < 10 then [digit_char n] else digits_of_nat (n div 10) @ [digit_char (n mod 10)])"

declare digits_of_nat.simps [simp del]

definition nat_of_digits :: "string \<Rightarrow> nat" where
  "nat_of_digits s = foldl (\<lambda>a c. 10 * a + digit_val c) 0 s"

text \<open>\<^verbatim>\<open>toString()\<close> of an integer: decimal digits, with a minus sign when negative.\<close>

definition int_toString :: "int \<Rightarrow> string" where
  "int_toString i =
     (if i < 0 then CHR ''-'' # digits_of_nat (nat (- i)) else digits_of_nat (nat i))"

text \<open>Reading \<^verbatim>\<open>xs[i]\<close> in JavaScript: \<^verbatim>\<open>undefined\<close> outside the array.\<close>

definition js_index :: "'a list \<Rightarrow> int \<Rightarrow> 'a option" where
  "js_index xs i = (if 0 \<le> i \<and> i < int (length xs) then Some (xs ! nat i) else None)"

subsection \<open>The handler\<close>

text \<open>
  \<^verbatim>\<open>getSdkPool\<close> (lines 176-193): the registry lookup in a \<^verbatim>\<open>try\<close>; an exception is
  handed to the sink and the local variable stays \<^verbatim>\<open>undefined\<close>.
\<close>

definition getSdkPool :: "deps \<Rightarrow> ExactInExitHandler \<Rightarrow> PoolWithMethods option \<times> call list" where
  "getSdkPool D h =
     (case pools_find D (pool_id (pool h)) of
        Inl err \<Rightarrow> (None, [PoolsFind (pool_id (pool h)), CaptureBalancerException err])
      | Inr sdkPool \<Rightarrow> (sdkPool, [PoolsFind (pool_id (pool h))]))"

text \<open>
  \<^verbatim>\<open>setLastExitRes\<close> (lines 195-230): the assignment to \<^verbatim>\<open>this.lastExitRes\<close> is inside
  the \<^verbatim>\<open>try\<close>, so it happens only when the builder returns; the \<^verbatim>\<open>catch\<close> hands the
  exception to the sink and assigns nothing.
\<close>

definition setLastExitRes ::
  "deps \<Rightarrow> ExactInExitHandler \<Rightarrow> PoolWithMethods \<Rightarrow> string \<Rightarrow> string \<Rightarrow> string \<Rightarrow> bool
     \<Rightarrow> string option \<Rightarrow> ExactInExitHandler \<times> call list" where
  "setLastExitRes D h sdkPool evmBptIn exiter slippage shouldUnwrapNativeAsset
       singleTokenMaxOutAddress =
     (let arg = map_option (toLowerCase D) singleTokenMaxOutAddress;
          c = BuildExitExactBPTIn exiter evmBptIn slippage shouldUnwrapNativeAsset arg
      in case buildExitExactBPTIn sdkPool exiter evmBptIn slippage shouldUnwrapNativeAsset arg of
           Inl err \<Rightarrow> (h, [c, CaptureBalancerException err])
         | Inr res \<Rightarrow> (h\<lparr>lastExitRes := Some res\<rparr>, [c]))"

text \<open>\<^verbatim>\<open>getEvmPriceImpact\<close> (lines 232-262).\<close>

definition getEvmPriceImpact ::
  "PoolWithMethods \<Rightarrow> string list \<Rightarrow> string \<Rightarrow> string option \<times> call list" where
  "getEvmPriceImpact sdkPool expected evmBptIn =
     (let c = CalcPriceImpact expected evmBptIn False
      in case calcPriceImpact sdkPool expected evmBptIn False of
           Inl err \<Rightarrow> (None, [c, CaptureBalancerException err])
         | Inr evmPriceImpact \<Rightarrow> (Some evmPriceImpact, [c]))"

text \<open>
  \<^verbatim>\<open>getSingleAmountOut\<close> (lines 136-149): an object literal with the one computed key
  \<^verbatim>\<open>tokenOut.address\<close>.
\<close>

definition getSingleAmountOut ::
  "deps \<Rightarrow> string list \<Rightarrow> int \<Rightarrow> TokenInfo \<Rightarrow> exn + (string \<rightharpoonup> string)" where
  "getSingleAmountOut D amounts tokenOutIndex tokenOut =
     (case formatFixed D (js_index amounts tokenOutIndex) (TokenInfo.decimals tokenOut) of
        Inl err \<Rightarrow> Inl err
      | Inr normalizedAmountOut \<Rightarrow>
          Inr [TokenInfo.address tokenOut \<mapsto> normalizedAmountOut])"

text \<open>
  \<^verbatim>\<open>getAmountsOut\<close> (lines 151-174). The \<^verbatim>\<open>forEach\<close> over \<^verbatim>\<open>expectedAmountsOut\<close> is the
  recursion \<open>getAmountsOut_forEach\<close>, with the index \<open>i\<close> and the object built so far.
\<close>

fun getAmountsOut_forEach ::
  "deps \<Rightarrow> PoolToken list \<Rightarrow> string list \<Rightarrow> (string \<rightharpoonup> string) \<Rightarrow> int \<Rightarrow> string list
     \<Rightarrow> exn + (string \<rightharpoonup> string)" where
  "getAmountsOut_forEach D allPoolTokens tokensOut acc i [] = Inr acc"
| "getAmountsOut_forEach D allPoolTokens tokensOut acc i (amount # rest) =
     (case find (\<lambda>poolToken. isSameAddress D (PoolToken.address poolToken) (js_index tokensOut i))
             allPoolTokens of
        None \<Rightarrow> getAmountsOut_forEach D allPoolTokens tokensOut acc (i + 1) rest
      | Some token \<Rightarrow>
          (case getAddress_ethers D (PoolToken.address token) of
             Inl err \<Rightarrow> Inl err
           | Inr realAddress \<Rightarrow>
               (case formatFixed D (Some amount)
                       (case PoolToken.decimals token of None \<Rightarrow> 18 | Some d \<Rightarrow> d) of
                  Inl err \<Rightarrow> Inl err
                | Inr scaledAmount \<Rightarrow>
                    getAmountsOut_forEach D allPoolTokens tokensOut
                      (acc(realAddress \<mapsto> scaledAmount)) (i + 1) rest)))"

definition getAmountsOut ::
  "deps \<Rightarrow> ExactInExitHandler \<Rightarrow> string list \<Rightarrow> string list \<Rightarrow> exn + (string \<rightharpoonup> string)" where
  "getAmountsOut D h expected tokensOut =
     getAmountsOut_forEach D (flatTokenTree D (pool h)) tokensOut Map.empty 0 expected"

text \<open>
  \<^verbatim>\<open>queryExit\<close> (lines 54-134), statement by statement, in two parts. The first part,
  \<open>queryExit\<close> itself, is lines 54-89: everything up to the call of \<^verbatim>\<open>setLastExitRes\<close>.
  The second, \<open>queryExit_finish\<close>, is lines 91-133: the test of \<^verbatim>\<open>this.lastExitRes\<close> and
  what follows it, with the local variables of the first part as arguments.
  \<^verbatim>\<open>priceImpact\<close> is the decimal string to which the source applies \<^verbatim>\<open>Number\<close>.
\<close>

definition queryExit_finish ::
  "deps \<Rightarrow> ExactInExitHandler \<Rightarrow> PoolWithMethods \<Rightarrow> TokenInfo \<Rightarrow> bool \<Rightarrow> string \<Rightarrow> string
     \<Rightarrow> call list \<Rightarrow> (error + QueryOutput) \<times> ExactInExitHandler \<times> call list" where
  "queryExit_finish D h sdkPool tokenOut isSingleTokenExit evmBptIn tokenOutAddressForSor cs =
     (case lastExitRes h of
        None \<Rightarrow> (Inl ExitConstructionFailed, h, cs)
      | Some res \<Rightarrow>
     (let tokensOut = removeAddress D (Pool.address (pool h))
                        (assets (exitPoolRequest (attributes res)));
          expected = expectedAmountsOut res;
          (evmPriceImpact_opt, c3) = getEvmPriceImpact sdkPool expected evmBptIn;
          cs3 = cs @ c3
      in case evmPriceImpact_opt of
        None \<Rightarrow> (Inl PriceImpactUnavailable, h, cs3)
      | Some evmPriceImpact \<Rightarrow>
          if evmPriceImpact = [] then (Inl PriceImpactUnavailable, h, cs3)
          else
     (case formatFixed D (Some evmPriceImpact) 18 of
        Inl err \<Rightarrow> (Inl (Thrown err), h, cs3)
      | Inr impact \<Rightarrow>
          if isSingleTokenExit then
            (let tokenOutIndex = indexOfAddress D tokensOut tokenOutAddressForSor
             in case getSingleAmountOut D expected tokenOutIndex tokenOut of
                  Inl err \<Rightarrow> (Inl (Thrown err), h, cs3)
                | Inr amounts \<Rightarrow>
                    (Inr \<lparr>QueryOutput.amountsOut = amounts, priceImpact = impact,
                          txReady = True\<rparr>, h, cs3))
          else
            (case getAmountsOut D h expected tokensOut of
               Inl err \<Rightarrow> (Inl (Thrown err), h, cs3)
             | Inr amounts \<Rightarrow>
                 (Inr \<lparr>QueryOutput.amountsOut = amounts, priceImpact = impact,
                       txReady = True\<rparr>, h, cs3)))))"

definition queryExit ::
  "deps \<Rightarrow> ExactInExitHandler \<Rightarrow> ExitParams
     \<Rightarrow> (error + QueryOutput) \<times> ExactInExitHandler \<times> call list" where
  "queryExit D h params =
     (case getAddress (signer params) of
        Inl err \<Rightarrow> (Inl (Thrown err), h, [SignerGetAddress])
      | Inr exiter \<Rightarrow>
     (let slippage = int_toString (slippageBsp params);
          (sdkPool_opt, c1) = getSdkPool D h;
          cs1 = SignerGetAddress # c1
      in case sdkPool_opt of
        None \<Rightarrow> (Inl (PoolNotFound (pool_id (pool h))), h, cs1)
      | Some sdkPool \<Rightarrow>
     (case ExitParams.amountsOut params of
        [] \<Rightarrow> (Inl TypeError, h, cs1)
      | amountOut0 # _ \<Rightarrow>
     (case selectByAddress D (tokenInfo params) (AmountOut.address amountOut0) of
        None \<Rightarrow>
          (Inl (TokenNotFound (AmountOut.address amountOut0) (map fst (tokenInfo params))), h, cs1)
      | Some tokenOut \<Rightarrow>
     (let isSingleTokenExit = (length (ExitParams.amountsOut params) = 1)
      in case parseFixed D (bptIn params) 18 of
        Inl err \<Rightarrow> (Inl (Thrown err), h, cs1)
      | Inr bn \<Rightarrow>
     (let evmBptIn = int_toString bn;
          tokenOutAddressForSor = formatAddressForSor D (TokenInfo.address tokenOut);
          singleTokenMaxOutAddress =
            (if isSingleTokenExit then Some tokenOutAddressForSor else None);
          shouldUnwrapNativeAsset =
            isSameAddress D (TokenInfo.address tokenOut) (Some (NATIVE_ASSET_ADDRESS D));
          (h2, c2) = setLastExitRes D h sdkPool evmBptIn exiter slippage
                       shouldUnwrapNativeAsset singleTokenMaxOutAddress
      in queryExit_finish D h2 sdkPool tokenOut isSingleTokenExit evmBptIn
           tokenOutAddressForSor (cs1 @ c2)))))))"

text \<open>
  \<^verbatim>\<open>exit\<close> (lines 43-52): the query is run again; its exception, if any, leaves
  \<^verbatim>\<open>exit\<close> as it is.
\<close>

definition exit ::
  "deps \<Rightarrow> ExactInExitHandler \<Rightarrow> ExitParams \<Rightarrow> (error + string) \<times> ExactInExitHandler \<times> call list" where
  "exit D h params =
     (case queryExit D h params of
        (Inl err, h', cs) \<Rightarrow> (Inl err, h', cs)
      | (Inr out, h', cs) \<Rightarrow>
          (case lastExitRes h' of
             None \<Rightarrow> (Inl ExitConstructionFailed, h', cs)
           | Some res \<Rightarrow>
               (let c = SendTransaction (to res) (data res)
                in case sendTransaction (signer params) (to res) (data res) of
                     Inl err \<Rightarrow> (Inl (Thrown err), h', cs @ [c])
                   | Inr response \<Rightarrow> (Inr response, h', cs @ [c]))))"

subsection \<open>Fixed-point conversion\<close>

text \<open>
  Modelled from the spec: \<^verbatim>\<open>parseFixed\<close> and \<^verbatim>\<open>formatFixed\<close> of
  \<^verbatim>\<open>@ethersproject/bignumber\<close>, which the handler imports and whose source is not part of
  the repository. The spec has \<^verbatim>\<open>parseFixed\<close> convert a human-readable decimal string
  to its fixed-point integer at the given number of decimals, and \<^verbatim>\<open>formatFixed\<close>
  convert a raw integer amount back into a human-decimal string, \<^verbatim>\<open>5000000\<close> at 6
  decimals being \<^verbatim>\<open>"5.0"\<close>. The definitions follow the library, version 5: the
  multiplier is \<open>10 ^ decimals\<close> for \<open>0 \<le> decimals \<le> 256\<close>; \<^verbatim>\<open>formatFixed\<close> prints the
  whole part, a point and the fraction padded to \<open>decimals\<close> digits and stripped of its
  trailing zeros but for one digit, and no point at all when \<open>decimals\<close> is 0;
  \<^verbatim>\<open>parseFixed\<close> accepts \<^verbatim>\<open>/^-?[0-9.]+$/\<close> with at most one point and at most
  \<open>decimals\<close> fraction digits after its trailing zeros are dropped. Integers are given to
  \<^verbatim>\<open>formatFixed\<close> as decimal strings (\<^verbatim>\<open>/^-?[0-9]+$/\<close>); the hexadecimal strings the
  library reads as well are not part of the model.
\<close>

text \<open>
  Modelled from the spec: \<^verbatim>\<open>getMultiplier\<close> of the library, the power of ten for a number
  of decimals between 0 and 256.
\<close>

definition getMultiplier :: "int \<Rightarrow> exn + nat" where
  "getMultiplier dec =
     (if 0 \<le> dec \<and> dec \<le> 256 then Inr (10 ^ nat dec)
      else Inl ''invalid decimal size'')"

text \<open>
  Modelled from the spec: \<^verbatim>\<open>BigNumber.from\<close> of the library on a decimal string; it throws
  on \<^verbatim>\<open>undefined\<close> (\<open>None\<close>) and on any other string.
\<close>

definition BigNumber_from :: "string option \<Rightarrow> exn + int" where
  "BigNumber_from value =
     (case value of
        None \<Rightarrow> Inl ''invalid BigNumber value''
      | Some s \<Rightarrow>
          (let negative = (take 1 s = ''-'');
               body = (if negative then drop 1 s else s)
           in if body \<noteq> [] \<and> list_all is_digit body
              then Inr (if negative then - int (nat_of_digits body) else int (nat_of_digits body))
              else Inl ''invalid BigNumber string''))"

definition padStart0 :: "nat \<Rightarrow> string \<Rightarrow> string" where
  "padStart0 n s = replicate (n - length s) CHR ''0'' @ s"

definition padEnd0 :: "nat \<Rightarrow> string \<Rightarrow> string" where
  "padEnd0 n s = s @ replicate (n - length s) CHR ''0''"

definition trimEnd0 :: "string \<Rightarrow> string" where
  "trimEnd0 s = rev (dropWhile (\<lambda>c. c = CHR ''0'') (rev s))"

text \<open>\<^verbatim>\<open>s.split(".")\<close>.\<close>

fun split_point :: "string \<Rightarrow> string list" where
  "split_point [] = [[]]"
| "split_point (c # cs) =
     (if c = CHR ''.'' then [] # split_point cs
      else (case split_point cs of [] \<Rightarrow> [[c]] | x # xs \<Rightarrow> (c # x) # xs))"

text \<open>
  Modelled from the spec: the body of \<^verbatim>\<open>formatFixed\<close> of the library once the multiplier
  and the value are there. The match
  \<^verbatim>\<open>/^([0-9]*[1-9]|0)(0*)/\<close> on a string of digits keeps everything up to the last digit
  that is not 0, or one 0 when there is none.
\<close>

definition formatFixed_render :: "int \<Rightarrow> nat \<Rightarrow> int \<Rightarrow> string" where
  "formatFixed_render v multiplier dec =
     (let negative = (v < 0);
          a = nat \<bar>v\<bar>;
          fraction = padStart0 (nat dec) (digits_of_nat (a mod multiplier));
          fraction = (if trimEnd0 fraction = [] then ''0'' else trimEnd0 fraction);
          whole = digits_of_nat (a div multiplier);
          r = (if dec = 0 then whole else whole @ ''.'' @ fraction)
      in if negative then CHR ''-'' # r else r)"

text \<open>
  Modelled from the spec: \<^verbatim>\<open>formatFixed\<close> of the library, on a \<^verbatim>\<open>BigNumber\<close>
  (\<open>formatFixed_BigNumber\<close>) and on what the handler passes, a string or \<^verbatim>\<open>undefined\<close>
  (\<open>formatFixed_ethers\<close>). The number of decimals is checked first.
\<close>

definition formatFixed_BigNumber :: "int \<Rightarrow> int \<Rightarrow> exn + string" where
  "formatFixed_BigNumber v dec =
     (case getMultiplier dec of
        Inl err \<Rightarrow> Inl err
      | Inr multiplier \<Rightarrow> Inr (formatFixed_render v multiplier dec))"

definition formatFixed_ethers :: "string option \<Rightarrow> int \<Rightarrow> exn + string" where
  "formatFixed_ethers value dec =
     (case getMultiplier dec of
        Inl err \<Rightarrow> Inl err
      | Inr multiplier \<Rightarrow>
          (case BigNumber_from value of
             Inl err \<Rightarrow> Inl err
           | Inr v \<Rightarrow> Inr (formatFixed_render v multiplier dec)))"

text \<open>
  Modelled from the spec: \<^verbatim>\<open>parseFixed\<close> of the library after the sign is taken off: the
  checks on the digits and the point, and the value of what is left.
\<close>

definition parseFixed_unsigned :: "string \<Rightarrow> nat \<Rightarrow> int \<Rightarrow> exn + int" where
  "parseFixed_unsigned body multiplier dec =
     (if body = [] \<or> \<not> list_all (\<lambda>c. is_digit c \<or> c = CHR ''.'') body
      then Inl ''invalid decimal value''
      else if body = ''.'' then Inl ''missing value''
      else
        (let comps = split_point body
         in if length comps > 2 then Inl ''too many decimal points''
            else
              (let whole = (if hd comps = [] then ''0'' else hd comps);
                   fraction = (if length comps < 2 \<or> comps ! 1 = [] then ''0'' else comps ! 1);
                   fraction = trimEnd0 fraction
               in if length fraction > nat dec
                  then Inl ''fractional component exceeds decimals''
                  else
                    (let fraction = (if fraction = [] then ''0'' else fraction);
                         fraction = padEnd0 (nat dec) fraction
                     in case BigNumber_from (Some whole) of
                          Inl err \<Rightarrow> Inl err
                        | Inr wholeValue \<Rightarrow>
                            (case BigNumber_from (Some fraction) of
                               Inl err \<Rightarrow> Inl err
                             | Inr fractionValue \<Rightarrow>
                                 Inr (wholeValue * int multiplier + fractionValue))))))"

text \<open>
  Modelled from the spec: \<^verbatim>\<open>parseFixed\<close> of the library. The number of decimals is checked
  first, then the sign is taken off and put back on the value.
\<close>

definition parseFixed_ethers :: "string \<Rightarrow> int \<Rightarrow> exn + int" where
  "parseFixed_ethers value dec =
     (case getMultiplier dec of
        Inl err \<Rightarrow> Inl err
      | Inr multiplier \<Rightarrow>
          (let negative = (take 1 value = ''-'');
               body = (if negative then drop 1 value else value)
           in case parseFixed_unsigned body multiplier dec of
                Inl err \<Rightarrow> Inl err
              | Inr wei \<Rightarrow> Inr (if negative then - wei else wei)))"

text \<open>
  The canonical spelling of a decimal string, written from the syntax of the string alone
  and not from the library: an optional minus sign, the whole part without leading zeros
  (\<^verbatim>\<open>0\<close> when nothing is left), a point, and the fraction without trailing zeros (\<^verbatim>\<open>0\<close>
  when nothing is left); zero carries no sign. The round trip of the BPT amount is stated
  with it.
\<close>

definition stripStart0 :: "string \<Rightarrow> string" where
  "stripStart0 w =
     (if dropWhile (\<lambda>c. c = CHR ''0'') w = [] then ''0'' else dropWhile (\<lambda>c. c = CHR ''0'') w)"

definition canonical_decimal :: "string \<Rightarrow> string" where
  "canonical_decimal s =
     (let negative = (take 1 s = ''-'');
          body = (if negative then drop 1 s else s);
          comps = split_point body;
          whole = stripStart0 (hd comps);
          fraction = trimEnd0 (if length comps < 2 then [] else comps ! 1);
          fraction = (if fraction = [] then ''0'' else fraction);
          zero = (whole = ''0'' \<and> fraction = ''0'')
      in (if negative \<and> \<not> zero then ''-'' else []) @ whole @ ''.'' @ fraction)"

subsection \<open>An instance of the parameters\<close>

text \<open>
  Modelled from the spec: the address helpers of \<^verbatim>\<open>@/lib/utils\<close>, \<^verbatim>\<open>flatTokenTree\<close> and
  \<^verbatim>\<open>getAddress\<close>, whose sources are not part of the repository. The spec speaks of
  address normalisation and of a token's canonical checksummed address. Here two
  addresses are the same when both are non-empty and they agree up to the case of
  their letters; \<^verbatim>\<open>selectByAddress\<close> returns the value of the first key that is the same
  address; \<^verbatim>\<open>removeAddress\<close> filters the list; \<^verbatim>\<open>indexOfAddress\<close> is the position of the
  first entry that is the same address, or -1; \<^verbatim>\<open>formatAddressForSor\<close> replaces the
  native asset by the zero address; \<^verbatim>\<open>flatTokenTree\<close> is taken on a pool without nested
  pools, where it is the token list. The checksum of an address needs Keccak-256;
  \<open>getAddress_table\<close> is \<^verbatim>\<open>getAddress\<close> at the three mainnet addresses the examples
  use (USDC, DAI, WETH) and throws elsewhere.

  The theorems on the handler hold for every value of the parameters; this instance
  is used to run the handler on concrete inputs.
\<close>

definition toLowerCase_ascii :: "string \<Rightarrow> string" where
  "toLowerCase_ascii s =
     map (\<lambda>c. if 65 \<le> (of_char c :: nat) \<and> (of_char c :: nat) \<le> 90
              then char_of ((of_char c :: nat) + 32) else c) s"

text \<open>
  Modelled from the spec: \<^verbatim>\<open>isSameAddress\<close>, \<^verbatim>\<open>selectByAddress\<close>, \<^verbatim>\<open>removeAddress\<close> and
  \<^verbatim>\<open>indexOfAddress\<close> of \<^verbatim>\<open>@/lib/utils\<close>, as described above.
\<close>

definition isSameAddress_model :: "string \<Rightarrow> string option \<Rightarrow> bool" where
  "isSameAddress_model address1 address2 =
     (case address2 of
        None \<Rightarrow> False
      | Some a2 \<Rightarrow> address1 \<noteq> [] \<and> a2 \<noteq> [] \<and> toLowerCase_ascii address1 = toLowerCase_ascii a2)"

definition selectByAddress_model :: "(string \<times> TokenInfo) list \<Rightarrow> string \<Rightarrow> TokenInfo option" where
  "selectByAddress_model m a =
     map_option snd (find (\<lambda>kv. isSameAddress_model (fst kv) (Some a)) m)"

definition removeAddress_model :: "string \<Rightarrow> string list \<Rightarrow> string list" where
  "removeAddress_model a addresses = filter (\<lambda>x. \<not> isSameAddress_model x (Some a)) addresses"

fun indexOfAddress_from :: "int \<Rightarrow> string list \<Rightarrow> string \<Rightarrow> int" where
  "indexOfAddress_from i [] a = - 1"
| "indexOfAddress_from i (x # xs) a =
     (if isSameAddress_model x (Some a) then i else indexOfAddress_from (i + 1) xs a)"

definition ZERO_ADDRESS :: string where
  "ZERO_ADDRESS = ''0x0000000000000000000000000000000000000000''"

definition NATIVE_ASSET :: string where
  "NATIVE_ASSET = ''0xEeeeeEeeeEeEeeEeEeEeeEEEeeeeEeeeeeeeEEeE''"

definition USDC :: string where
  "USDC = ''0xA0b86991c6218b36c1d19D4a2e9Eb0cE3606eB48''"

definition DAI :: string where
  "DAI = ''0x6B175474E89094C44Da98b954EedeAC495271d0F''"

definition WETH :: string where
  "WETH = ''0xC02aaA39b223FE8D0A0e5C4F27eAD9083C756Cc2''"

text \<open>
  Modelled from the spec: \<^verbatim>\<open>getAddress\<close> of the library at the addresses of USDC, DAI and
  WETH, where it is their checksummed spelling.
\<close>

definition getAddress_table :: "string \<Rightarrow> exn + string" where
  "getAddress_table a =
     (if toLowerCase_ascii a = toLowerCase_ascii USDC then Inr USDC
      else if toLowerCase_ascii a = toLowerCase_ascii DAI then Inr DAI
      else if toLowerCase_ascii a = toLowerCase_ascii WETH then Inr WETH
      else Inl ''invalid address'')"

definition deps_model :: "(string \<Rightarrow> exn + PoolWithMethods option) \<Rightarrow> deps" where
  "deps_model find_pool =
     \<lparr>pools_find = find_pool,
      selectByAddress = selectByAddress_model,
      formatAddressForSor =
        (\<lambda>a. if isSameAddress_model a (Some NATIVE_ASSET) then ZERO_ADDRESS else a),
      isSameAddress = isSameAddress_model,
      removeAddress = removeAddress_model,
      indexOfAddress = indexOfAddress_from 0,
      flatTokenTree = tokens,
      NATIVE_ASSET_ADDRESS = NATIVE_ASSET,
      getAddress_ethers = getAddress_table,
      parseFixed = parseFixed_ethers,
      formatFixed = formatFixed_ethers,
      toLowerCase = toLowerCase_ascii\<rparr>"

subsection \<open>Concrete inputs\<close>

text \<open>
  A pool of USDC and DAI whose own token has the address \<open>BPT\<close>, a signer, and the
  parameters of an exit of \<^verbatim>\<open>"10.0"\<close> pool tokens towards USDC alone, or towards USDC and
  DAI.
\<close>

definition BPT :: string where
  "BPT = ''0x06Df3b2bbB68adc8B0e302443692037ED9f91b42''"

definition pool_example :: Pool where
  "pool_example =
     \<lparr>pool_id = ''0x06df3b2bbb68adc8b0e302443692037ed9f91b42000000000000000000000063'',
      Pool.address = BPT,
      tokens = [\<lparr>PoolToken.address = toLowerCase_ascii DAI, PoolToken.decimals = Some 18\<rparr>,
                \<lparr>PoolToken.address = toLowerCase_ascii USDC, PoolToken.decimals = Some 6\<rparr>]\<rparr>"

definition signer_example :: Signer where
  "signer_example =
     \<lparr>getAddress = Inr ''0x000000000000000000000000000000000000dEaD'',
      sendTransaction = (\<lambda>t d. Inr (''sent:'' @ d))\<rparr>"

definition tokenInfo_example :: "(string \<times> TokenInfo) list" where
  "tokenInfo_example =
     [(DAI, \<lparr>TokenInfo.address = DAI, TokenInfo.decimals = 18\<rparr>),
      (USDC, \<lparr>TokenInfo.address = USDC, TokenInfo.decimals = 6\<rparr>)]"

definition params_single :: ExitParams where
  "params_single =
     \<lparr>signer = signer_example, tokenInfo = tokenInfo_example, bptIn = ''10.0'',
      slippageBsp = 50,
      ExitParams.amountsOut = [\<lparr>AmountOut.address = USDC, amount_value = ''0''\<rparr>]\<rparr>"

definition params_multi :: ExitParams where
  "params_multi =
     \<lparr>signer = signer_example, tokenInfo = tokenInfo_example, bptIn = ''10.0'',
      slippageBsp = 50,
      ExitParams.amountsOut = [\<lparr>AmountOut.address = DAI, amount_value = ''0''\<rparr>,
                               \<lparr>AmountOut.address = USDC, amount_value = ''0''\<rparr>]\<rparr>"

text \<open>
  Responses of the builder: \<open>response_single\<close> gives 5000000 raw units of USDC,
  \<open>response_multi\<close> an amount for each of the two tokens, \<open>response_short\<close> two assets
  but one amount.
\<close>

definition response_single :: ExitExactInResponse where
  "response_single =
     \<lparr>to = ''0xBA12222222228d8Ba445958a75a0704d566BF2C8'', data = ''0x8bdb3913'',
      attributes = \<lparr>exitPoolRequest = \<lparr>assets = [toLowerCase_ascii DAI, toLowerCase_ascii USDC]\<rparr>\<rparr>,
      expectedAmountsOut = [''0'', ''5000000'']\<rparr>"

definition response_multi :: ExitExactInResponse where
  "response_multi =
     \<lparr>to = ''0xBA12222222228d8Ba445958a75a0704d566BF2C8'', data = ''0x8bdb3913aa'',
      attributes = \<lparr>exitPoolRequest = \<lparr>assets = [toLowerCase_ascii DAI, toLowerCase_ascii USDC]\<rparr>\<rparr>,
      expectedAmountsOut = [''5000000000000000000'', ''5000000'']\<rparr>"

definition response_short :: ExitExactInResponse where
  "response_short =
     \<lparr>to = ''0xBA12222222228d8Ba445958a75a0704d566BF2C8'', data = ''0x8bdb3913bb'',
      attributes = \<lparr>exitPoolRequest = \<lparr>assets = [toLowerCase_ascii DAI, toLowerCase_ascii USDC]\<rparr>\<rparr>,
      expectedAmountsOut = [''5000000000000000000'']\<rparr>"

definition sdkPool_returning :: "ExitExactInResponse \<Rightarrow> PoolWithMethods" where
  "sdkPool_returning res =
     \<lparr>buildExitExactBPTIn = (\<lambda>exiter evmBptIn slippage unwrap single. Inr res),
      calcPriceImpact = (\<lambda>amounts evmBptIn isJoin. Inr ''1000000000000000'')\<rparr>"

definition sdkPool_throwing :: PoolWithMethods where
  "sdkPool_throwing =
     \<lparr>buildExitExactBPTIn = (\<lambda>exiter evmBptIn slippage unwrap single. Inl ''BAL#000''),
      calcPriceImpact = (\<lambda>amounts evmBptIn isJoin. Inr ''1000000000000000'')\<rparr>"

definition handler_fresh :: ExactInExitHandler where
  "handler_fresh = \<lparr>pool = pool_example, lastExitRes = None\<rparr>"

definition handler_stale :: ExactInExitHandler where
  "handler_stale = \<lparr>pool = pool_example, lastExitRes = Some response_multi\<rparr>"

text \<open>The registry finds the pool, whose builder returns \<open>res\<close>.\<close>

definition deps_returning :: "ExitExactInResponse \<Rightarrow> deps" where
  "deps_returning res = deps_model (\<lambda>i. Inr (Some (sdkPool_returning res)))"

text \<open>The registry finds the pool, whose builder throws.\<close>

definition deps_build_throws :: deps where
  "deps_build_throws = deps_model (\<lambda>i. Inr (Some sdkPool_throwing))"

text \<open>The registry has no pool of that id.\<close>

definition deps_no_pool :: deps where
  "deps_no_pool = deps_model (\<lambda>i. Inr None)"

text \<open>The lookup in the registry throws.\<close>

definition deps_find_throws :: deps where
  "deps_find_throws = deps_model (\<lambda>i. Inl ''network error'')"

text \<open>
  The exit towards USDC alone with a token map that spells the address of USDC in
  lower case, in its key and in the \<^verbatim>\<open>address\<close> field.
\<close>

definition params_single_lower :: ExitParams where
  "params_single_lower =
     params_single\<lparr>tokenInfo :=
       [(''0xa0b86991c6218b36c1d19d4a2e9eb0ce3606eb48'',
         \<lparr>TokenInfo.address = ''0xa0b86991c6218b36c1d19d4a2e9eb0ce3606eb48'',
          TokenInfo.decimals = 6\<rparr>)]\<rparr>"

text \<open>
  The exit towards DAI and USDC with a token map that has USDC only (the first
  requested token is missing), and with one that has DAI only (the second is missing).
\<close>

definition params_multi_first_missing :: ExitParams where
  "params_multi_first_missing =
     params_multi\<lparr>tokenInfo :=
       [(USDC, \<lparr>TokenInfo.address = USDC, TokenInfo.decimals = 6\<rparr>)]\<rparr>"

definition params_multi_second_missing :: ExitParams where
  "params_multi_second_missing =
     params_multi\<lparr>tokenInfo :=
       [(DAI, \<lparr>TokenInfo.address = DAI, TokenInfo.decimals = 18\<rparr>)]\<rparr>"

text \<open>
  A pool of DAI and WETH and an exit towards the native asset and DAI. The first
  requested token is the native asset, so the builder is asked to unwrap; its response
  lists the zero address in the place of WETH.
\<close>

definition pool_weth :: Pool where
  "pool_weth =
     \<lparr>pool_id = ''0x0b09dea16768f0799065c475be02919503cb2a3500020000000000000000001a'',
      Pool.address = ''0x0b09deA16768f0799065C475bE02919503cB2a35'',
      tokens = [\<lparr>PoolToken.address = ''0x6b175474e89094c44da98b954eedeac495271d0f'',
                 PoolToken.decimals = Some 18\<rparr>,
                \<lparr>PoolToken.address = ''0xc02aaa39b223fe8d0a0e5c4f27ead9083c756cc2'',
                 PoolToken.decimals = Some 18\<rparr>]\<rparr>"

definition handler_weth :: ExactInExitHandler where
  "handler_weth = \<lparr>pool = pool_weth, lastExitRes = None\<rparr>"

definition params_native :: ExitParams where
  "params_native =
     \<lparr>signer = signer_example,
      tokenInfo =
        [(NATIVE_ASSET, \<lparr>TokenInfo.address = NATIVE_ASSET, TokenInfo.decimals = 18\<rparr>),
         (DAI, \<lparr>TokenInfo.address = DAI, TokenInfo.decimals = 18\<rparr>)],
      bptIn = ''10.0'',
      slippageBsp = 50,
      ExitParams.amountsOut = [\<lparr>AmountOut.address = NATIVE_ASSET, amount_value = ''0''\<rparr>,
                               \<lparr>AmountOut.address = DAI, amount_value = ''0''\<rparr>]\<rparr>"

definition response_native :: ExitExactInResponse where
  "response_native =
     \<lparr>to = ''0xBA12222222228d8Ba445958a75a0704d566BF2C8'', data = ''0x8bdb3913cc'',
      attributes = \<lparr>exitPoolRequest = \<lparr>assets =
        [ZERO_ADDRESS, ''0x6b175474e89094c44da98b954eedeac495271d0f'']\<rparr>\<rparr>,
      expectedAmountsOut = [''1000000000000000'', ''5000000000000000000'']\<rparr>"

subsection \<open>The pool's tokens, as the specification names them\<close>

text \<open>
  Modelled from the spec: the set the specification compares the keys of a multi-output
  result with, in its words the pool's token addresses excluding the pool's own BPT
  address, each in its canonical form.
\<close>

definition nonBptTokenAddresses :: "deps \<Rightarrow> Pool \<Rightarrow> string list" where
  "nonBptTokenAddresses D p =
     map (\<lambda>t. case getAddress_ethers D (PoolToken.address t) of
                 Inl err \<Rightarrow> PoolToken.address t
               | Inr a \<Rightarrow> a)
       (filter (\<lambda>t. \<not> isSameAddress D (PoolToken.address t) (Some (Pool.address p)))
          (tokens p))"

section \<open>Decimal strings and the fixed-point conversion\<close>

subsection \<open>Digits\<close>

lemma digit_cases: "d < 10 \<Longrightarrow> d \<in> {0, 1, 2, 3, 4, 5, 6, 7, 8, 9 :: nat}"
  by auto

lemma digit_val_digit_char: "d < 10 \<Longrightarrow> digit_val (digit_char d) = d"
  by (drule digit_cases) (auto simp: digit_val_def digit_char_def)

lemma is_digit_digit_char: "d < 10 \<Longrightarrow> is_digit (digit_char d)"
  by (drule digit_cases) (auto simp: is_digit_def digit_char_def)

lemma is_digit_not_point: "is_digit c \<Longrightarrow> c \<noteq> CHR ''.''"
  by (auto simp: is_digit_def)

lemma is_digit_not_minus: "is_digit c \<Longrightarrow> c \<noteq> CHR ''-''"
  by (auto simp: is_digit_def)

lemma is_digit_zero: "is_digit CHR ''0''"
  by (simp add: is_digit_def)

lemma digit_val_zero: "digit_val CHR ''0'' = 0"
  by (simp add: digit_val_def)

lemma digits_of_nat_small: "n < 10 \<Longrightarrow> digits_of_nat n = [digit_char n]"
  by (simp add: digits_of_nat.simps)

lemma digits_of_nat_large:
  "10 \<le> n \<Longrightarrow> digits_of_nat n = digits_of_nat (n div 10) @ [digit_char (n mod 10)]"
  by (subst digits_of_nat.simps) simp

lemma digits_of_nat_all_digits: "list_all is_digit (digits_of_nat n)"
proof (induction n rule: digits_of_nat.induct)
  case (1 n)
  show ?case
  proof (cases "n < 10")
    case True
    then show ?thesis by (simp add: digits_of_nat_small is_digit_digit_char)
  next
    case False
    with 1 show ?thesis by (simp add: digits_of_nat_large is_digit_digit_char)
  qed
qed

lemma digits_of_nat_not_Nil: "digits_of_nat n \<noteq> []"
  by (subst digits_of_nat.simps) simp

lemma nat_of_digits_snoc: "nat_of_digits (s @ [c]) = 10 * nat_of_digits s + digit_val c"
  by (simp add: nat_of_digits_def)

lemma nat_of_digits_digits_of_nat: "nat_of_digits (digits_of_nat n) = n"
proof (induction n rule: digits_of_nat.induct)
  case (1 n)
  show ?case
  proof (cases "n < 10")
    case True
    then show ?thesis
      by (simp add: digits_of_nat_small nat_of_digits_def digit_val_digit_char)
  next
    case False
    with 1 show ?thesis
      by (simp add: digits_of_nat_large nat_of_digits_snoc digit_val_digit_char)
  qed
qed

lemma foldl_digits_zeros:
  "foldl (\<lambda>a c. 10 * a + digit_val c) a (replicate k CHR ''0'') = a * 10 ^ k"
  by (induction k arbitrary: a) (simp_all add: digit_val_zero)

lemma nat_of_digits_padStart0: "nat_of_digits (padStart0 n s) = nat_of_digits s"
  by (simp add: nat_of_digits_def padStart0_def foldl_digits_zeros)

lemma nat_of_digits_append_zeros:
  "nat_of_digits (s @ replicate k CHR ''0'') = nat_of_digits s * 10 ^ k"
  by (simp add: nat_of_digits_def foldl_digits_zeros)

lemma length_digits_of_nat: "0 < d \<Longrightarrow> n < 10 ^ d \<Longrightarrow> length (digits_of_nat n) \<le> d"
proof (induction n arbitrary: d rule: digits_of_nat.induct)
  case (1 n)
  show ?case
  proof (cases "n < 10")
    case True
    with 1 show ?thesis by (simp add: digits_of_nat_small)
  next
    case False
    then have d: "1 < d" using "1.prems"
      by (cases "d = 1") auto
    then obtain e where e: "d = Suc e" "0 < e" by (cases d) auto
    have "n div 10 < 10 ^ e" using "1.prems" e
      by (simp add: less_mult_imp_div_less mult.commute)
    with 1 False e have "length (digits_of_nat (n div 10)) \<le> e" by simp
    with False e show ?thesis by (simp add: digits_of_nat_large)
  qed
qed

lemma trimEnd0_decomp:
  "s = trimEnd0 s @ replicate (length s - length (trimEnd0 s)) CHR ''0''"
proof -
  let ?P = "\<lambda>c. c = CHR ''0''"
  have tw: "takeWhile ?P xs = replicate (length (takeWhile ?P xs)) CHR ''0''" for xs
    by (induction xs) auto
  have "rev s = takeWhile ?P (rev s) @ dropWhile ?P (rev s)" by simp
  then have "s = rev (dropWhile ?P (rev s)) @ rev (takeWhile ?P (rev s))"
    by (metis rev_append rev_rev_ident)
  moreover have "rev (takeWhile ?P (rev s)) = replicate (length (takeWhile ?P (rev s))) CHR ''0''"
    by (subst tw) simp
  moreover have "length (takeWhile ?P (rev s)) = length s - length (trimEnd0 s)"
  proof -
    have "length (takeWhile ?P xs) + length (dropWhile ?P xs) = length xs" for xs :: string
      by (induction xs) auto
    from this [of "rev s"] show ?thesis by (simp add: trimEnd0_def)
  qed
  ultimately show ?thesis by (simp add: trimEnd0_def)
qed

lemma trimEnd0_idem: "trimEnd0 (trimEnd0 s) = trimEnd0 s"
  by (simp add: trimEnd0_def)

lemma trimEnd0_zero: "trimEnd0 ''0'' = []"
  by (simp add: trimEnd0_def)

lemma length_trimEnd0: "length (trimEnd0 s) \<le> length s"
  using length_dropWhile_le [of "\<lambda>c. c = CHR ''0''" "rev s"] by (simp add: trimEnd0_def)

lemma trimEnd0_all: "list_all P s \<Longrightarrow> list_all P (trimEnd0 s)"
  by (auto simp: trimEnd0_def list_all_iff dest: set_dropWhileD)

lemma split_point_no_point: "CHR ''.'' \<notin> set s \<Longrightarrow> split_point s = [s]"
  by (induction s) auto

lemma split_point_one_point:
  "CHR ''.'' \<notin> set w \<Longrightarrow> CHR ''.'' \<notin> set f \<Longrightarrow> split_point (w @ CHR ''.'' # f) = [w, f]"
  by (induction w) (auto simp: split_point_no_point)

subsection \<open>Parsing what was printed\<close>

lemma take1_digits: "list_all is_digit w \<Longrightarrow> take (Suc 0) w \<noteq> ''-''"
  by (cases w) (auto dest: is_digit_not_minus)

lemma BigNumber_from_digits:
  "list_all is_digit w \<Longrightarrow> w \<noteq> [] \<Longrightarrow> BigNumber_from (Some w) = Inr (int (nat_of_digits w))"
  by (simp add: BigNumber_from_def take1_digits Let_def)

lemma digits_no_point: "list_all is_digit w \<Longrightarrow> CHR ''.'' \<notin> set w"
  by (auto simp: list_all_iff dest: is_digit_not_point)

lemma padEnd0_all_digits: "list_all is_digit f \<Longrightarrow> list_all is_digit (padEnd0 n f)"
  by (auto simp: padEnd0_def list_all_iff is_digit_zero)

lemma parseFixed_unsigned_whole:
  assumes w: "list_all is_digit w" "w \<noteq> []"
  shows "parseFixed_unsigned w m d = Inr (int (nat_of_digits w) * int m)"
proof -
  have pt: "split_point w = [w]" using w by (simp add: split_point_no_point digits_no_point)
  have all: "list_all (\<lambda>c. is_digit c \<or> c = CHR ''.'') w"
    using w by (auto simp: list_all_iff)
  have ne: "(w = ''.'') = False" using w by (auto dest: is_digit_not_point)
  have "BigNumber_from (Some (padEnd0 (nat d) ''0'')) = Inr (int (nat_of_digits (padEnd0 (nat d) ''0'')))"
    by (rule BigNumber_from_digits) (auto simp: padEnd0_def is_digit_zero list_all_iff)
  moreover have "nat_of_digits (padEnd0 (nat d) ''0'') = 0"
    by (simp add: padEnd0_def nat_of_digits_def foldl_digits_zeros digit_val_zero)
  ultimately have fr: "BigNumber_from (Some (padEnd0 (nat d) ''0'')) = Inr 0" by simp
  have wh: "BigNumber_from (Some w) = Inr (int (nat_of_digits w))"
    by (rule BigNumber_from_digits) (use w in auto)
  show ?thesis
    unfolding parseFixed_unsigned_def Let_def
    apply (simp only: ne all pt w(2) if_False if_True simp_thms)
    apply (simp only: list.sel One_nat_def length_Cons list.size w(2) if_False if_True simp_thms)
    apply (simp add: trimEnd0_zero fr wh)
    done
qed

lemma parseFixed_unsigned_point:
  assumes w: "list_all is_digit w" "w \<noteq> []" and f: "list_all is_digit f" "f \<noteq> []"
    and len: "length (trimEnd0 f) \<le> nat d"
  shows "parseFixed_unsigned (w @ CHR ''.'' # f) m d =
           Inr (int (nat_of_digits w) * int m +
                int (nat_of_digits (padEnd0 (nat d) (if trimEnd0 f = [] then ''0'' else trimEnd0 f))))"
proof -
  let ?s = "w @ CHR ''.'' # f"
  let ?g = "padEnd0 (nat d) (if trimEnd0 f = [] then ''0'' else trimEnd0 f)"
  have pt: "split_point ?s = [w, f]"
    using w f by (simp add: split_point_one_point digits_no_point)
  have all: "list_all (\<lambda>c. is_digit c \<or> c = CHR ''.'') ?s"
    using w f by (auto simp: list_all_iff)
  have ne: "(?s = ''.'') = False" using w by (cases w) auto
  have ne2: "(?s = []) = False" by simp
  have g1: "list_all is_digit (if trimEnd0 f = [] then ''0'' else trimEnd0 f)"
    using f by (simp add: trimEnd0_all is_digit_zero)
  have g: "list_all is_digit ?g" "?g \<noteq> []"
    using padEnd0_all_digits [OF g1] by (simp_all add: padEnd0_def)
  have fr: "BigNumber_from (Some ?g) = Inr (int (nat_of_digits ?g))"
    by (rule BigNumber_from_digits) (use g in auto)
  have wh: "BigNumber_from (Some w) = Inr (int (nat_of_digits w))"
    by (rule BigNumber_from_digits) (use w in auto)
  have len': "(nat d < length (trimEnd0 f)) = False" using len by simp
  show ?thesis
    unfolding parseFixed_unsigned_def Let_def
    apply (simp only: ne ne2 all pt if_False if_True sum.case simp_thms)
    apply (simp only: list.sel nth_Cons_Suc nth_Cons_0 One_nat_def length_Cons list.size
            w(2) f(2) if_False if_True simp_thms)
    apply (insert fr)
    apply (cases "trimEnd0 f = []")
     apply (simp_all add: len' wh w(2) f(2) del: list_all_append)
    done
qed

lemma formatFixed_fraction_value:
  assumes d: "0 < k" and lt: "n < 10 ^ k"
  defines "F \<equiv> padStart0 k (digits_of_nat n)"
  defines "fr \<equiv> (if trimEnd0 F = [] then ''0'' else trimEnd0 F)"
  shows "list_all is_digit fr" "fr \<noteq> []" "length (trimEnd0 fr) \<le> k"
    "nat_of_digits (padEnd0 k (if trimEnd0 fr = [] then ''0'' else trimEnd0 fr)) = n"
proof -
  have lenF: "length F = k"
    using length_digits_of_nat [OF d lt] by (simp add: F_def padStart0_def)
  have digF: "list_all is_digit F"
    using digits_of_nat_all_digits [of n] by (auto simp: F_def padStart0_def list_all_iff is_digit_zero)
  have valF: "nat_of_digits F = n"
    by (simp add: F_def nat_of_digits_padStart0 nat_of_digits_digits_of_nat)
  show "list_all is_digit fr" using digF by (simp add: fr_def trimEnd0_all is_digit_zero)
  show "fr \<noteq> []" by (simp add: fr_def)
  have tfr: "trimEnd0 fr = trimEnd0 F"
    by (simp add: fr_def trimEnd0_idem trimEnd0_zero)
  show "length (trimEnd0 fr) \<le> k" using length_trimEnd0 [of F] by (simp add: tfr lenF)
  have dec: "F = trimEnd0 F @ replicate (k - length (trimEnd0 F)) CHR ''0''"
    using trimEnd0_decomp [of F] by (simp add: lenF)
  show "nat_of_digits (padEnd0 k (if trimEnd0 fr = [] then ''0'' else trimEnd0 fr)) = n"
  proof (cases "trimEnd0 F = []")
    case True
    with dec have "F = replicate k CHR ''0''" by simp
    then have "nat_of_digits F = 0"
      by (simp add: nat_of_digits_def foldl_digits_zeros)
    moreover have "nat_of_digits (padEnd0 k ''0'') = 0"
      by (simp add: padEnd0_def nat_of_digits_def foldl_digits_zeros digit_val_zero)
    ultimately show ?thesis using True valF by (simp add: tfr)
  next
    case False
    then have "padEnd0 k (if trimEnd0 fr = [] then ''0'' else trimEnd0 fr) = F"
      using dec by (simp add: tfr padEnd0_def)
    then show ?thesis by (simp add: valF)
  qed
qed

lemma parseFixed_unsigned_render:
  assumes m: "getMultiplier d = Inr m" and v: "0 \<le> v"
  shows "parseFixed_unsigned (formatFixed_render v m d) m d = Inr v"
proof -
  from m have d0: "0 \<le> d" and md: "m = 10 ^ nat d"
    by (auto simp: getMultiplier_def split: if_splits)
  define a where "a = nat v"
  define w where "w = digits_of_nat (a div m)"
  have w: "list_all is_digit w" "w \<noteq> []" "nat_of_digits w = a div m"
    by (simp_all add: w_def digits_of_nat_all_digits digits_of_nat_not_Nil nat_of_digits_digits_of_nat)
  show ?thesis
  proof (cases "d = 0")
    case True
    then have "formatFixed_render v m d = w"
      using v by (simp add: formatFixed_render_def Let_def w_def a_def)
    moreover have "m = 1" using True md by simp
    ultimately show ?thesis
      using parseFixed_unsigned_whole [OF w(1,2), of m d] v by (simp add: w(3) a_def)
  next
    case False
    with d0 have k: "0 < nat d" by simp
    have lt: "a mod m < 10 ^ nat d" by (simp add: md)
    define fr where "fr = (if trimEnd0 (padStart0 (nat d) (digits_of_nat (a mod m))) = [] then ''0''
                           else trimEnd0 (padStart0 (nat d) (digits_of_nat (a mod m))))"
    note fv = formatFixed_fraction_value [OF k lt, folded fr_def]
    have r: "formatFixed_render v m d = w @ CHR ''.'' # fr"
      using v False by (simp add: formatFixed_render_def Let_def w_def a_def fr_def)
    have "parseFixed_unsigned (w @ CHR ''.'' # fr) m d = Inr (int (a div m) * int m + int (a mod m))"
      using parseFixed_unsigned_point [OF w(1,2) fv(1,2,3), of m] by (simp add: fv(4) w(3))
    also have "int (a div m) * int m + int (a mod m) = int a"
      by (simp flip: of_nat_mult of_nat_add)
    finally show ?thesis using v by (simp add: r a_def)
  qed
qed

lemma formatFixed_render_minus:
  "v < 0 \<Longrightarrow> formatFixed_render v m d = CHR ''-'' # formatFixed_render (- v) m d"
  by (simp add: formatFixed_render_def Let_def)

lemma formatFixed_render_head:
  "0 \<le> v \<Longrightarrow> take 1 (formatFixed_render v m d) \<noteq> ''-''"
proof -
  assume v: "0 \<le> v"
  obtain c cs where c: "digits_of_nat (nat \<bar>v\<bar> div m) = c # cs" "is_digit c"
    using digits_of_nat_not_Nil [of "nat \<bar>v\<bar> div m"] digits_of_nat_all_digits [of "nat \<bar>v\<bar> div m"]
    by (cases "digits_of_nat (nat \<bar>v\<bar> div m)") auto
  then show ?thesis
    using v by (auto simp: formatFixed_render_def Let_def dest: is_digit_not_minus)
qed

lemma parseFixed_formatFixed_render:
  assumes m: "getMultiplier d = Inr m"
  shows "parseFixed_ethers (formatFixed_render v m d) d = Inr v"
proof (cases "v < 0")
  case True
  then have "parseFixed_unsigned (formatFixed_render (- v) m d) m d = Inr (- v)"
    using parseFixed_unsigned_render [OF m, of "- v"] by simp
  then show ?thesis
    using True by (simp add: parseFixed_ethers_def m formatFixed_render_minus)
next
  case False
  then have v: "0 \<le> v" by simp
  have "(take 1 (formatFixed_render v m d) = ''-'') = False"
    using formatFixed_render_head [OF v] by simp
  then show ?thesis
    using parseFixed_unsigned_render [OF m v]
    by (simp add: parseFixed_ethers_def m Let_def del: One_nat_def)
qed

subsection \<open>Printing what was parsed\<close>

lemma digit_char_digit_val: "is_digit c \<Longrightarrow> digit_char (digit_val c) = c"
proof -
  assume d: "is_digit c"
  then have "digit_val c < 10" by (auto simp: is_digit_def digit_val_def)
  then have v: "digit_val (digit_char (digit_val c)) = digit_val c" by (rule digit_val_digit_char)
  have "is_digit (digit_char (digit_val c))"
    using \<open>digit_val c < 10\<close> by (rule is_digit_digit_char)
  with d v have "(of_char (digit_char (digit_val c)) :: nat) = of_char c"
    unfolding is_digit_def digit_val_def by arith
  then show ?thesis by simp
qed

lemma digit_val_lt: "is_digit c \<Longrightarrow> digit_val c < 10"
  by (auto simp: is_digit_def digit_val_def)

lemma digit_val_eq_0: "is_digit c \<Longrightarrow> (digit_val c = 0) = (c = CHR ''0'')"
  using digit_char_digit_val [of c] by (auto simp: digit_val_zero digit_char_def)

lemma nat_of_digits_eq_0:
  "list_all is_digit w \<Longrightarrow> (nat_of_digits w = 0) = (\<forall>c \<in> set w. c = CHR ''0'')"
proof (induction w rule: rev_induct)
  case Nil
  then show ?case by (simp add: nat_of_digits_def)
next
  case (snoc c w)
  then show ?case by (auto simp: nat_of_digits_snoc digit_val_eq_0)
qed

lemma dropWhile_zeros_Nil: "(dropWhile (\<lambda>c. c = CHR ''0'') w = []) = (\<forall>c \<in> set w. c = CHR ''0'')"
  by (induction w) auto

lemma digits_of_nat_nat_of_digits:
  "list_all is_digit w \<Longrightarrow> digits_of_nat (nat_of_digits w) = stripStart0 w"
proof (induction w rule: rev_induct)
  case Nil
  then show ?case by (simp add: nat_of_digits_def stripStart0_def digits_of_nat_small digit_char_def)
next
  case (snoc c w)
  then have w: "list_all is_digit w" and c: "is_digit c" by simp_all
  note IH = snoc.IH [OF w]
  show ?case
  proof (cases "nat_of_digits w = 0")
    case True
    then have z: "\<forall>x \<in> set w. x = CHR ''0''" using nat_of_digits_eq_0 [OF w] by simp
    then have dw: "dropWhile (\<lambda>c. c = CHR ''0'') (w @ [c]) = dropWhile (\<lambda>c. c = CHR ''0'') [c]"
      by (simp add: dropWhile_append)
    have "digits_of_nat (nat_of_digits (w @ [c])) = [c]"
      using True c by (simp add: nat_of_digits_snoc digits_of_nat_small digit_val_lt digit_char_digit_val)
    then show ?thesis by (auto simp: stripStart0_def dw)
  next
    case False
    then have nz: "dropWhile (\<lambda>c. c = CHR ''0'') w \<noteq> []"
      using nat_of_digits_eq_0 [OF w] dropWhile_zeros_Nil [of w] by simp
    then obtain x where x: "x \<in> set w" "x \<noteq> CHR ''0''" using dropWhile_zeros_Nil [of w] by auto
    then have dw: "dropWhile (\<lambda>c. c = CHR ''0'') (w @ [c]) = dropWhile (\<lambda>c. c = CHR ''0'') w @ [c]"
      by (auto simp: dropWhile_append)
    have "digits_of_nat (nat_of_digits (w @ [c])) = digits_of_nat (nat_of_digits w) @ [c]"
      using False c
      by (simp add: nat_of_digits_snoc digits_of_nat_large digit_val_lt digit_char_digit_val)
    then show ?thesis using IH nz by (auto simp: stripStart0_def dw)
  qed
qed

lemma padStart0_digits_of_nat:
  assumes "list_all is_digit F" "F \<noteq> []"
  shows "padStart0 (length F) (digits_of_nat (nat_of_digits F)) = F"
proof -
  let ?P = "\<lambda>c. c = CHR ''0''"
  have tw: "takeWhile ?P xs = replicate (length (takeWhile ?P xs)) CHR ''0''" for xs
    by (induction xs) auto
  have len: "length (takeWhile ?P F) + length (dropWhile ?P F) = length F"
    by (induction F) auto
  have F: "F = takeWhile ?P F @ dropWhile ?P F" by simp
  show ?thesis
  proof (cases "dropWhile ?P F = []")
    case True
    then have "F = replicate (length F) CHR ''0''"
      using tw [of F] len F by (metis append_Nil2 add.right_neutral list.size(3))
    moreover have "replicate (length F) CHR ''0'' = replicate (length F - 1) CHR ''0'' @ ''0''"
      using assms(2) by (cases "length F") (simp_all add: replicate_append_same)
    ultimately show ?thesis
      using True by (simp add: digits_of_nat_nat_of_digits [OF assms(1)] stripStart0_def padStart0_def)
  next
    case False
    have "length F - length (dropWhile ?P F) = length (takeWhile ?P F)" using len by simp
    then have "padStart0 (length F) (dropWhile ?P F) = takeWhile ?P F @ dropWhile ?P F"
      unfolding padStart0_def using tw [of F] by simp
    then show ?thesis
      using False by (auto simp: digits_of_nat_nat_of_digits [OF assms(1)] stripStart0_def)
  qed
qed

lemma nat_of_digits_lt: "list_all is_digit F \<Longrightarrow> nat_of_digits F < 10 ^ length F"
proof (induction F rule: rev_induct)
  case Nil
  then show ?case by (simp add: nat_of_digits_def)
next
  case (snoc c F)
  then have "nat_of_digits F < 10 ^ length F" "digit_val c < 10" by (simp_all add: digit_val_lt)
  then have "10 * nat_of_digits F + digit_val c < 10 * 10 ^ length F" by simp
  then show ?case by (simp add: nat_of_digits_snoc)
qed

lemma split_point_not_Nil: "split_point s \<noteq> []"
  by (induction s) (auto split: list.splits)

lemma split_point_parts: "c \<in> set (split_point s) \<Longrightarrow> set c \<subseteq> set s - {CHR ''.''}"
proof (induction s arbitrary: c)
  case Nil
  then show ?case by simp
next
  case (Cons x s)
  show ?case
  proof (cases "x = CHR ''.''")
    case True
    with Cons show ?thesis by auto
  next
    case False
    obtain y ys where y: "split_point s = y # ys"
      using split_point_not_Nil [of s] by (cases "split_point s") auto
    with False Cons.prems have "c = x # y \<or> c \<in> set ys" by auto
    then show ?thesis
    proof
      assume "c = x # y"
      moreover have "set y \<subseteq> set s - {CHR ''.''}" using Cons.IH [of y] y by simp
      ultimately show ?thesis using False by auto
    next
      assume "c \<in> set ys"
      then have "set c \<subseteq> set s - {CHR ''.''}" using Cons.IH [of c] y by simp
      then show ?thesis by auto
    qed
  qed
qed

lemma split_point_digits:
  assumes "list_all (\<lambda>c. is_digit c \<or> c = CHR ''.'') s" "c \<in> set (split_point s)"
  shows "list_all is_digit c"
  using split_point_parts [OF assms(2)] assms(1) by (auto simp: list_all_iff)

lemma trimEnd0_append_zeros: "trimEnd0 (s @ replicate k CHR ''0'') = trimEnd0 s"
  by (simp add: trimEnd0_def dropWhile_append)

lemma trimEnd0_zeros: "\<forall>c \<in> set s. c = CHR ''0'' \<Longrightarrow> trimEnd0 s = []"
  by (simp add: trimEnd0_def)

lemma stripStart0_empty_whole: "stripStart0 (if w = [] then ''0'' else w) = stripStart0 w"
  by (auto simp: stripStart0_def)

lemma parseFixed_unsigned_canonical:
  assumes m: "getMultiplier d = Inr m" and d: "d \<noteq> 0"
    and p: "parseFixed_unsigned body m d = Inr wei"
  defines "comps \<equiv> split_point body"
  defines "W \<equiv> stripStart0 (hd comps)"
  defines "T \<equiv> trimEnd0 (if length comps < 2 then [] else comps ! 1)"
  defines "Fr \<equiv> (if T = [] then ''0'' else T)"
  shows "0 \<le> wei" "formatFixed_render wei m d = W @ CHR ''.'' # Fr"
    "(wei = 0) = (W = ''0'' \<and> Fr = ''0'')"
proof -
  from m d have k: "0 < nat d" and md: "m = 10 ^ nat d" and d0: "0 \<le> d"
    by (auto simp: getMultiplier_def split: if_splits)
  define k where "k = nat d"
  define whole where "whole = (if hd comps = [] then ''0'' else hd comps)"
  define T' where "T' = trimEnd0 (if length comps < 2 \<or> comps ! 1 = [] then ''0'' else comps ! 1)"
  define fp where "fp = padEnd0 k (if T' = [] then ''0'' else T')"
  have TT: "T' = T"
    by (simp add: T'_def T_def trimEnd0_zero trimEnd0_def)
  from p have valid: "list_all (\<lambda>c. is_digit c \<or> c = CHR ''.'') body"
    and two: "length comps \<le> 2"
    and len: "length T' \<le> k"
    and val: "\<exists>wv fv. BigNumber_from (Some whole) = Inr wv \<and> BigNumber_from (Some fp) = Inr fv \<and>
                wei = wv * int m + fv"
    unfolding parseFixed_unsigned_def Let_def comps_def [symmetric] whole_def [symmetric]
      T'_def [symmetric] k_def [symmetric] fp_def [symmetric]
    by (auto split: if_splits sum.splits)
  have ne: "comps \<noteq> []" by (simp add: comps_def split_point_not_Nil)
  then have "hd comps \<in> set (split_point body)" by (simp add: comps_def)
  then have hd: "list_all is_digit (hd comps)" by (rule split_point_digits [OF valid])
  then have whole: "list_all is_digit whole" "whole \<noteq> []"
    by (simp_all add: whole_def is_digit_zero)
  have "stripStart0 whole = W" unfolding whole_def W_def by (rule stripStart0_empty_whole)
  then have Wd: "digits_of_nat (nat_of_digits whole) = W"
    using digits_of_nat_nat_of_digits [OF whole(1)] by simp
  have Td: "list_all is_digit T"
  proof (cases "length comps < 2")
    case True
    then show ?thesis by (simp add: T_def trimEnd0_def)
  next
    case False
    then have "comps ! 1 \<in> set (split_point body)" by (simp add: comps_def)
    then have "list_all is_digit (comps ! 1)" by (rule split_point_digits [OF valid])
    then show ?thesis using False by (simp add: T_def trimEnd0_all)
  qed
  have Tt: "trimEnd0 T = T" by (simp add: T_def trimEnd0_idem)
  have Fr: "list_all is_digit Fr" "Fr \<noteq> []" "length Fr \<le> k" "trimEnd0 Fr = T"
    using Td len k by (auto simp: Fr_def is_digit_zero TT Tt trimEnd0_zero k_def)
  have fpFr: "fp = Fr @ replicate (k - length Fr) CHR ''0''"
    by (simp add: fp_def padEnd0_def TT Fr_def)
  have fp: "list_all is_digit fp" "fp \<noteq> []" "length fp = k" "trimEnd0 fp = T"
    using Fr by (auto simp: fpFr trimEnd0_append_zeros is_digit_zero list_all_iff)
  have lt: "nat_of_digits fp < m" using nat_of_digits_lt [OF fp(1)] by (simp add: fp(3) md k_def)
  have Fd: "padStart0 (nat d) (digits_of_nat (nat_of_digits fp)) = fp"
    using padStart0_digits_of_nat [OF fp(1,2)] by (simp add: fp(3) k_def)
  define a where "a = nat_of_digits whole * m + nat_of_digits fp"
  from val have wei: "wei = int a"
    by (simp add: BigNumber_from_digits [OF whole] BigNumber_from_digits [OF fp(1,2)] a_def)
  show "0 \<le> wei" by (simp add: wei)
  have dv: "a div m = nat_of_digits whole" "a mod m = nat_of_digits fp"
    using lt by (simp_all add: a_def)
  show "formatFixed_render wei m d = W @ CHR ''.'' # Fr"
    using d by (simp add: formatFixed_render_def Let_def wei dv Wd Fd fp(4) Fr_def)
  have z1: "(nat_of_digits whole = 0) = (W = ''0'')"
  proof
    assume "nat_of_digits whole = 0"
    then show "W = ''0''" using Wd by (simp add: digits_of_nat_small digit_char_def)
  next
    assume "W = ''0''"
    then have "nat_of_digits (digits_of_nat (nat_of_digits whole)) = nat_of_digits ''0''"
      using Wd by simp
    then show "nat_of_digits whole = 0"
      by (simp add: nat_of_digits_digits_of_nat) (simp add: nat_of_digits_def digit_val_zero)
  qed
  have z2: "(nat_of_digits fp = 0) = (Fr = ''0'')"
  proof
    assume "nat_of_digits fp = 0"
    then have "\<forall>c \<in> set fp. c = CHR ''0''" using nat_of_digits_eq_0 [OF fp(1)] by simp
    then have "trimEnd0 fp = []" by (rule trimEnd0_zeros)
    then show "Fr = ''0''" by (simp add: fp(4) Fr_def)
  next
    assume "Fr = ''0''"
    then show "nat_of_digits fp = 0"
      by (simp add: fpFr nat_of_digits_def foldl_digits_zeros digit_val_zero)
  qed
  have "0 < m" by (simp add: md)
  then have "(a = 0) = (nat_of_digits whole = 0 \<and> nat_of_digits fp = 0)" by (simp add: a_def)
  then show "(wei = 0) = (W = ''0'' \<and> Fr = ''0'')" by (simp add: wei z1 z2)
qed

lemma formatFixed_render_canonical:
  assumes m: "getMultiplier d = Inr m" and d: "d \<noteq> 0"
    and p: "parseFixed_ethers s d = Inr n"
  shows "formatFixed_render n m d = canonical_decimal s"
proof -
  define negative where "negative = (take 1 s = ''-'')"
  define body where "body = (if negative then drop 1 s else s)"
  from p obtain wei where u: "parseFixed_unsigned body m d = Inr wei"
    and n: "n = (if negative then - wei else wei)"
    unfolding parseFixed_ethers_def Let_def negative_def [symmetric] body_def [symmetric]
    by (auto simp: m split: sum.splits)
  note c = parseFixed_unsigned_canonical [OF m d u]
  show ?thesis
  proof (cases "negative \<and> wei \<noteq> 0")
    case True
    then have "n < 0" "- n = wei" using c(1) n by auto
    then have "formatFixed_render n m d = CHR ''-'' # formatFixed_render wei m d"
      using formatFixed_render_minus [of n m d] by simp
    then show ?thesis
      using True c(3)
      unfolding canonical_decimal_def Let_def negative_def [symmetric] body_def [symmetric]
      by (simp add: c(2))
  next
    case False
    then have "n = wei" using n by auto
    then show ?thesis
      using False c(3)
      unfolding canonical_decimal_def Let_def negative_def [symmetric] body_def [symmetric]
      by (auto simp: c(2))
  qed
qed

subsection \<open>Values on concrete strings\<close>

lemma replicate_numeral_eval: "replicate (numeral k) x = x # replicate (pred_numeral k) x"
  by (simp add: numeral_eq_Suc)

lemma char_of_eval:
  "char_of (97::nat) = CHR ''a''" "char_of (98::nat) = CHR ''b''" "char_of (99::nat) = CHR ''c''"
  "char_of (100::nat) = CHR ''d''" "char_of (101::nat) = CHR ''e''" "char_of (102::nat) = CHR ''f''"
  by (simp_all add: char_of_eq_iff)

lemmas digits_eval = digits_of_nat_small digits_of_nat_large digit_char_def digit_val_def
  is_digit_def nat_of_digits_def int_toString_def

lemmas fixed_eval = formatFixed_ethers_def formatFixed_BigNumber_def formatFixed_render_def
  parseFixed_ethers_def parseFixed_unsigned_def getMultiplier_def BigNumber_from_def
  padStart0_def padEnd0_def trimEnd0_def replicate_numeral_eval Let_def

lemma parseFixed_ten: "parseFixed_ethers ''10.0'' 18 = Inr 10000000000000000000"
  by (simp add: fixed_eval digits_eval)

lemma parseFixed_ten_short: "parseFixed_ethers ''10'' 18 = Inr 10000000000000000000"
  by (simp add: fixed_eval digits_eval)

lemma formatFixed_ten: "formatFixed_BigNumber 10000000000000000000 18 = Inr ''10.0''"
  by (simp add: fixed_eval digits_eval)

lemma formatFixed_usdc: "formatFixed_ethers (Some ''5000000'') 6 = Inr ''5.0''"
  by (simp add: fixed_eval digits_eval)

lemma formatFixed_dai: "formatFixed_ethers (Some ''5000000000000000000'') 18 = Inr ''5.0''"
  by (simp add: fixed_eval digits_eval)

lemma formatFixed_impact: "formatFixed_ethers (Some ''1000000000000000'') 18 = Inr ''0.001''"
  by (simp add: fixed_eval digits_eval)

lemma canonical_decimal_ten_short: "canonical_decimal ''10'' = ''10.0''"
  by (simp add: canonical_decimal_def stripStart0_def trimEnd0_def Let_def)

lemma canonical_decimal_ten: "canonical_decimal ''10.0'' = ''10.0''"
  by (simp add: canonical_decimal_def stripStart0_def trimEnd0_def Let_def)

lemma int_toString_ten: "int_toString 10000000000000000000 = ''10000000000000000000''"
  by (simp add: digits_eval)

lemma int_toString_fifty: "int_toString 50 = ''50''"
  by (simp add: digits_eval)

subsection \<open>The round trip\<close>

text \<open>
  Claim C7, as stated, has the BPT amount come back from the conversion to fixed point at
  18 decimals and back as the original string. The amount \<^verbatim>\<open>"10"\<close> is accepted by
  \<^verbatim>\<open>parseFixed\<close> and comes back from \<^verbatim>\<open>formatFixed\<close> as \<^verbatim>\<open>"10.0"\<close>.
\<close>

theorem bptIn_round_trip_counterexample:
  "parseFixed_ethers ''10'' 18 = Inr 10000000000000000000 \<and>
   formatFixed_BigNumber 10000000000000000000 18 = Inr ''10.0'' \<and>
   ''10.0'' \<noteq> ''10''"
  using parseFixed_ten_short formatFixed_ten by simp

text \<open>
  Claim C7, amended. Every decimal string that \<^verbatim>\<open>parseFixed\<close> accepts at 18 decimals,
  converted to its fixed-point integer and printed back by \<^verbatim>\<open>formatFixed\<close> at 18
  decimals, comes back in its canonical spelling (\<open>canonical_decimal\<close>): the same digits
  with the leading zeros of the whole part and the trailing zeros of the fraction dropped,
  \<^verbatim>\<open>0\<close> for a part that is left empty, and no sign on zero. That spelling is accepted
  again and stands for the same fixed-point integer. So the original string comes back
  exactly when it is already spelled that way.
\<close>

theorem bptIn_round_trip_canonical:
  assumes "parseFixed_ethers s 18 = Inr n"
  shows "formatFixed_BigNumber n 18 = Inr (canonical_decimal s) \<and>
         parseFixed_ethers (canonical_decimal s) 18 = Inr n"
proof -
  have m: "getMultiplier 18 = Inr (10 ^ 18)" by (simp add: getMultiplier_def)
  have c: "formatFixed_render n (10 ^ 18) 18 = canonical_decimal s"
    by (rule formatFixed_render_canonical [OF m _ assms]) simp
  have f: "formatFixed_BigNumber n 18 = Inr (formatFixed_render n (10 ^ 18) 18)"
    by (simp add: formatFixed_BigNumber_def m)
  have p: "parseFixed_ethers (formatFixed_render n (10 ^ 18) 18) 18 = Inr n"
    by (rule parseFixed_formatFixed_render [OF m])
  from f p show ?thesis unfolding c by (rule conjI)
qed

text \<open>The round trip of \<^verbatim>\<open>"10"\<close>, which comes back as \<^verbatim>\<open>"10.0"\<close>.\<close>

theorem bptIn_round_trip_canonical_witness:
  "parseFixed_ethers ''10'' 18 = Inr 10000000000000000000 \<and>
   formatFixed_BigNumber 10000000000000000000 18 = Inr (canonical_decimal ''10'') \<and>
   parseFixed_ethers (canonical_decimal ''10'') 18 = Inr 10000000000000000000 \<and>
   canonical_decimal ''10'' = ''10.0''"
  using bptIn_round_trip_canonical [OF parseFixed_ten_short] parseFixed_ten_short
    canonical_decimal_ten_short
  by simp

section \<open>The handler on the concrete inputs\<close>

text \<open>
  The handler run on the concrete inputs: each result is computed by rewriting with the
  definitions.
\<close>

lemmas queryExit_unfold = queryExit_def queryExit_finish_def getSdkPool_def setLastExitRes_def getEvmPriceImpact_def
  Let_def

lemmas model_eval = deps_model_def deps_returning_def deps_build_throws_def deps_no_pool_def
  deps_find_throws_def toLowerCase_ascii_def isSameAddress_model_def selectByAddress_model_def
  removeAddress_model_def getAddress_table_def char_of_eval ZERO_ADDRESS_def NATIVE_ASSET_def
  USDC_def DAI_def WETH_def BPT_def js_index_def

lemmas handler_eval = queryExit_def queryExit_finish_def exit_def getSdkPool_def setLastExitRes_def
  getEvmPriceImpact_def getSingleAmountOut_def getAmountsOut_def Let_def

lemmas example_eval = pool_example_def signer_example_def tokenInfo_example_def
  params_single_def params_multi_def response_single_def response_multi_def
  response_short_def sdkPool_returning_def sdkPool_throwing_def handler_fresh_def
  handler_stale_def params_single_lower_def params_multi_first_missing_def
  params_multi_second_missing_def pool_weth_def handler_weth_def params_native_def
  response_native_def

lemmas value_eval = parseFixed_ten formatFixed_usdc formatFixed_dai formatFixed_impact
  int_toString_ten int_toString_fifty

lemma run_single:
  "queryExit (deps_returning response_single) handler_fresh params_single =
     (Inr \<lparr>QueryOutput.amountsOut = [USDC \<mapsto> ''5.0''], priceImpact = ''0.001'', txReady = True\<rparr>,
      handler_fresh\<lparr>lastExitRes := Some response_single\<rparr>,
      [SignerGetAddress, PoolsFind (pool_id pool_example),
       BuildExitExactBPTIn ''0x000000000000000000000000000000000000dEaD''
         ''10000000000000000000'' ''50'' False (Some ''0xa0b86991c6218b36c1d19d4a2e9eb0ce3606eb48''),
       CalcPriceImpact [''0'', ''5000000''] ''10000000000000000000'' False])"
  by (simp add: handler_eval model_eval example_eval value_eval)

lemma run_multi:
  "queryExit (deps_returning response_multi) handler_fresh params_multi =
     (Inr \<lparr>QueryOutput.amountsOut = [DAI \<mapsto> ''5.0'', USDC \<mapsto> ''5.0''], priceImpact = ''0.001'',
           txReady = True\<rparr>,
      handler_stale,
      [SignerGetAddress, PoolsFind (pool_id pool_example),
       BuildExitExactBPTIn ''0x000000000000000000000000000000000000dEaD''
         ''10000000000000000000'' ''50'' False None,
       CalcPriceImpact [''5000000000000000000'', ''5000000''] ''10000000000000000000'' False])"
  by (simp add: handler_eval model_eval example_eval value_eval)

lemma run_native:
  "queryExit (deps_returning response_native) handler_weth params_native =
     (Inr \<lparr>QueryOutput.amountsOut = [DAI \<mapsto> ''5.0''], priceImpact = ''0.001'', txReady = True\<rparr>,
      handler_weth\<lparr>lastExitRes := Some response_native\<rparr>,
      [SignerGetAddress, PoolsFind (pool_id pool_weth),
       BuildExitExactBPTIn ''0x000000000000000000000000000000000000dEaD''
         ''10000000000000000000'' ''50'' True None,
       CalcPriceImpact [''1000000000000000'', ''5000000000000000000'']
         ''10000000000000000000'' False])"
  by (simp add: handler_eval model_eval example_eval value_eval)

lemma run_lower:
  "queryExit (deps_returning response_single) handler_fresh params_single_lower =
     (Inr \<lparr>QueryOutput.amountsOut = [''0xa0b86991c6218b36c1d19d4a2e9eb0ce3606eb48'' \<mapsto> ''5.0''],
           priceImpact = ''0.001'', txReady = True\<rparr>,
      handler_fresh\<lparr>lastExitRes := Some response_single\<rparr>,
      [SignerGetAddress, PoolsFind (pool_id pool_example),
       BuildExitExactBPTIn ''0x000000000000000000000000000000000000dEaD''
         ''10000000000000000000'' ''50'' False (Some ''0xa0b86991c6218b36c1d19d4a2e9eb0ce3606eb48''),
       CalcPriceImpact [''0'', ''5000000''] ''10000000000000000000'' False])"
  by (simp add: handler_eval model_eval example_eval value_eval)

lemma run_no_pool:
  "queryExit deps_no_pool handler_fresh params =
     (case getAddress (signer params) of
        Inl err \<Rightarrow> (Inl (Thrown err), handler_fresh, [SignerGetAddress])
      | Inr a \<Rightarrow> (Inl (PoolNotFound (pool_id pool_example)), handler_fresh,
          [SignerGetAddress, PoolsFind (pool_id pool_example)]))"
  by (simp add: queryExit_unfold deps_no_pool_def deps_model_def handler_fresh_def split: sum.splits)

lemma run_find_throws:
  "queryExit deps_find_throws handler_fresh params_single =
     (Inl (PoolNotFound (pool_id pool_example)), handler_fresh,
      [SignerGetAddress, PoolsFind (pool_id pool_example),
       CaptureBalancerException ''network error''])"
  by (simp add: queryExit_unfold deps_find_throws_def deps_model_def handler_fresh_def
      params_single_def signer_example_def)

lemma run_build_throws:
  "queryExit deps_build_throws handler_fresh params_single =
     (Inl ExitConstructionFailed, handler_fresh,
      [SignerGetAddress, PoolsFind (pool_id pool_example),
       BuildExitExactBPTIn ''0x000000000000000000000000000000000000dEaD''
         ''10000000000000000000'' ''50'' False (Some ''0xa0b86991c6218b36c1d19d4a2e9eb0ce3606eb48''),
       CaptureBalancerException ''BAL#000''])"
  by (simp add: handler_eval model_eval example_eval value_eval)

lemma run_stale:
  "queryExit deps_build_throws handler_stale params_single =
     (Inr \<lparr>QueryOutput.amountsOut = [USDC \<mapsto> ''5.0''], priceImpact = ''0.001'', txReady = True\<rparr>,
      handler_stale,
      [SignerGetAddress, PoolsFind (pool_id pool_example),
       BuildExitExactBPTIn ''0x000000000000000000000000000000000000dEaD''
         ''10000000000000000000'' ''50'' False (Some ''0xa0b86991c6218b36c1d19d4a2e9eb0ce3606eb48''),
       CaptureBalancerException ''BAL#000'',
       CalcPriceImpact [''5000000000000000000'', ''5000000''] ''10000000000000000000'' False])"
  by (simp add: handler_eval model_eval example_eval value_eval)

lemma run_short:
  "fst (queryExit (deps_returning response_short) handler_fresh params_multi) =
     Inr \<lparr>QueryOutput.amountsOut = [DAI \<mapsto> ''5.0''], priceImpact = ''0.001'', txReady = True\<rparr>"
  by (simp add: handler_eval model_eval example_eval value_eval)

lemma run_first_missing:
  "queryExit (deps_returning response_multi) handler_fresh params_multi_first_missing =
     (Inl (TokenNotFound DAI [USDC]), handler_fresh,
      [SignerGetAddress, PoolsFind (pool_id pool_example)])"
  by (simp add: handler_eval model_eval example_eval value_eval)

lemma run_second_missing:
  "fst (queryExit (deps_returning response_multi) handler_fresh params_multi_second_missing) =
     Inr \<lparr>QueryOutput.amountsOut = [DAI \<mapsto> ''5.0'', USDC \<mapsto> ''5.0''], priceImpact = ''0.001'',
           txReady = True\<rparr>"
  by (simp add: handler_eval model_eval example_eval value_eval)

section \<open>The ways through the handler\<close>

lemmas queryExit_splits = sum.splits option.splits list.splits prod.splits if_splits

lemma queryExit_finish_handler:
  "fst (snd (queryExit_finish D h sdkPool tokenOut single evmBptIn sor cs)) = h"
  by (auto simp: queryExit_finish_def getEvmPriceImpact_def Let_def split: queryExit_splits)

lemma queryExit_finish_txReady:
  "fst (queryExit_finish D h sdkPool tokenOut single evmBptIn sor cs) = Inr out \<Longrightarrow> txReady out"
  by (auto simp: queryExit_finish_def getEvmPriceImpact_def Let_def split: queryExit_splits)

lemma queryExit_finish_success:
  "fst (queryExit_finish D h sdkPool tokenOut single evmBptIn sor cs) = Inr out
     \<Longrightarrow> lastExitRes h \<noteq> None"
  by (auto simp: queryExit_finish_def split: queryExit_splits)

lemma queryExit_finish_unset:
  "lastExitRes h = None \<Longrightarrow>
     queryExit_finish D h sdkPool tokenOut single evmBptIn sor cs = (Inl ExitConstructionFailed, h, cs)"
  by (simp add: queryExit_finish_def)

lemma queryExit_finish_calls:
  "\<exists>c3. snd (snd (queryExit_finish D h sdkPool tokenOut single evmBptIn sor cs)) = cs @ c3 \<and>
     (\<forall>c \<in> set c3. (\<exists>x y z. c = CalcPriceImpact x y z) \<or> (\<exists>e. c = CaptureBalancerException e))"
  by (auto simp: queryExit_finish_def getEvmPriceImpact_def Let_def split: queryExit_splits)


lemma queryExit_finish_error:
  "fst (queryExit_finish D h sdkPool tokenOut single evmBptIn sor cs) = Inl e \<Longrightarrow>
     e = ExitConstructionFailed \<or> e = PriceImpactUnavailable \<or> (\<exists>x. e = Thrown x)"
  by (auto simp: queryExit_finish_def getEvmPriceImpact_def Let_def split: queryExit_splits)

lemma queryExit_finish_single:
  assumes "fst (queryExit_finish D h sdkPool tokenOut True evmBptIn sor cs) = Inr out"
    and "lastExitRes h = Some res"
  shows "getSingleAmountOut D (expectedAmountsOut res)
           (indexOfAddress D
              (removeAddress D (Pool.address (pool h)) (assets (exitPoolRequest (attributes res))))
              sor) tokenOut = Inr (QueryOutput.amountsOut out)"
  using assms
  by (auto simp: queryExit_finish_def getEvmPriceImpact_def Let_def split: queryExit_splits)

lemma queryExit_finish_multi:
  assumes "fst (queryExit_finish D h sdkPool tokenOut False evmBptIn sor cs) = Inr out"
    and "lastExitRes h = Some res"
  shows "getAmountsOut D h (expectedAmountsOut res)
           (removeAddress D (Pool.address (pool h)) (assets (exitPoolRequest (attributes res))))
         = Inr (QueryOutput.amountsOut out)"
  using assms
  by (auto simp: queryExit_finish_def getEvmPriceImpact_def Let_def split: queryExit_splits)

lemma setLastExitRes_pool: "setLastExitRes D h sdkPool a b c u s = (h2, c2) \<Longrightarrow> pool h2 = pool h"
  by (auto simp: setLastExitRes_def Let_def split: sum.splits)

lemma setLastExitRes_calls:
  "setLastExitRes D h sdkPool a b c u s = (h2, c2) \<Longrightarrow>
     (\<exists>x. BuildExitExactBPTIn b a c u x \<in> set c2) \<and> (\<forall>t d. SendTransaction t d \<notin> set c2)"
  by (auto simp: setLastExitRes_def Let_def split: sum.splits)

lemma queryExit_finish_no_send:
  assumes "\<forall>t d. SendTransaction t d \<notin> set cs"
  shows "SendTransaction t d \<notin> set (snd (snd (queryExit_finish D h sdkPool tokenOut single evmBptIn sor cs)))"
  using queryExit_finish_calls [of D h sdkPool tokenOut single evmBptIn sor cs] assms by auto

text \<open>The ways through the first part of \<open>queryExit\<close>.\<close>

lemma queryExit_outcome [case_names signer_throws find_throws no_pool no_output token_missing
    parse_throws built]:
  assumes "\<And>err. getAddress (signer params) = Inl err \<Longrightarrow>
             queryExit D h params = (Inl (Thrown err), h, [SignerGetAddress]) \<Longrightarrow> P"
    and "\<And>exiter err. getAddress (signer params) = Inr exiter \<Longrightarrow>
             pools_find D (pool_id (pool h)) = Inl err \<Longrightarrow>
             queryExit D h params =
               (Inl (PoolNotFound (pool_id (pool h))), h,
                [SignerGetAddress, PoolsFind (pool_id (pool h)), CaptureBalancerException err]) \<Longrightarrow> P"
    and "\<And>exiter. getAddress (signer params) = Inr exiter \<Longrightarrow>
             pools_find D (pool_id (pool h)) = Inr None \<Longrightarrow>
             queryExit D h params =
               (Inl (PoolNotFound (pool_id (pool h))), h,
                [SignerGetAddress, PoolsFind (pool_id (pool h))]) \<Longrightarrow> P"
    and "\<And>exiter sdkPool. getAddress (signer params) = Inr exiter \<Longrightarrow>
             pools_find D (pool_id (pool h)) = Inr (Some sdkPool) \<Longrightarrow>
             ExitParams.amountsOut params = [] \<Longrightarrow>
             queryExit D h params =
               (Inl TypeError, h, [SignerGetAddress, PoolsFind (pool_id (pool h))]) \<Longrightarrow> P"
    and "\<And>exiter sdkPool a0 rest. getAddress (signer params) = Inr exiter \<Longrightarrow>
             pools_find D (pool_id (pool h)) = Inr (Some sdkPool) \<Longrightarrow>
             ExitParams.amountsOut params = a0 # rest \<Longrightarrow>
             selectByAddress D (tokenInfo params) (AmountOut.address a0) = None \<Longrightarrow>
             queryExit D h params =
               (Inl (TokenNotFound (AmountOut.address a0) (map fst (tokenInfo params))), h,
                [SignerGetAddress, PoolsFind (pool_id (pool h))]) \<Longrightarrow> P"
    and "\<And>exiter sdkPool a0 rest tokenOut err. getAddress (signer params) = Inr exiter \<Longrightarrow>
             pools_find D (pool_id (pool h)) = Inr (Some sdkPool) \<Longrightarrow>
             ExitParams.amountsOut params = a0 # rest \<Longrightarrow>
             selectByAddress D (tokenInfo params) (AmountOut.address a0) = Some tokenOut \<Longrightarrow>
             parseFixed D (bptIn params) 18 = Inl err \<Longrightarrow>
             queryExit D h params =
               (Inl (Thrown err), h, [SignerGetAddress, PoolsFind (pool_id (pool h))]) \<Longrightarrow> P"
    and "\<And>exiter sdkPool a0 rest tokenOut bn h2 c2. getAddress (signer params) = Inr exiter \<Longrightarrow>
             pools_find D (pool_id (pool h)) = Inr (Some sdkPool) \<Longrightarrow>
             ExitParams.amountsOut params = a0 # rest \<Longrightarrow>
             selectByAddress D (tokenInfo params) (AmountOut.address a0) = Some tokenOut \<Longrightarrow>
             parseFixed D (bptIn params) 18 = Inr bn \<Longrightarrow>
             setLastExitRes D h sdkPool (int_toString bn) exiter (int_toString (slippageBsp params))
               (isSameAddress D (TokenInfo.address tokenOut) (Some (NATIVE_ASSET_ADDRESS D)))
               (if rest = [] then Some (formatAddressForSor D (TokenInfo.address tokenOut)) else None)
               = (h2, c2) \<Longrightarrow>
             queryExit D h params =
               queryExit_finish D h2 sdkPool tokenOut (rest = []) (int_toString bn)
                 (formatAddressForSor D (TokenInfo.address tokenOut))
                 ([SignerGetAddress, PoolsFind (pool_id (pool h))] @ c2) \<Longrightarrow> P"
  shows P
proof (cases "getAddress (signer params)")
  case (Inl err)
  then show ?thesis using assms(1) by (simp add: queryExit_def)
next
  case exiter: (Inr exiter)
  show ?thesis
  proof (cases "pools_find D (pool_id (pool h))")
    case (Inl err)
    then show ?thesis using assms(2) exiter by (simp add: queryExit_def getSdkPool_def)
  next
    case (Inr found)
    show ?thesis
    proof (cases found)
      case None
      then show ?thesis using assms(3) exiter Inr by (simp add: queryExit_def getSdkPool_def)
    next
      case (Some sdkPool)
      note pool = Inr [unfolded Some]
      show ?thesis
      proof (cases "ExitParams.amountsOut params")
        case Nil
        then show ?thesis using assms(4) exiter pool by (simp add: queryExit_def getSdkPool_def)
      next
        case (Cons a0 rest)
        show ?thesis
        proof (cases "selectByAddress D (tokenInfo params) (AmountOut.address a0)")
          case None
          then show ?thesis
            using assms(5) exiter pool Cons by (simp add: queryExit_def getSdkPool_def)
        next
          case tok: (Some tokenOut)
          show ?thesis
          proof (cases "parseFixed D (bptIn params) 18")
            case (Inl err)
            then show ?thesis
              using assms(6) exiter pool Cons tok by (simp add: queryExit_def getSdkPool_def)
          next
            case (Inr bn)
            obtain h2 c2 where s: "setLastExitRes D h sdkPool (int_toString bn) exiter
               (int_toString (slippageBsp params))
               (isSameAddress D (TokenInfo.address tokenOut) (Some (NATIVE_ASSET_ADDRESS D)))
               (if rest = [] then Some (formatAddressForSor D (TokenInfo.address tokenOut)) else None)
               = (h2, c2)"
              by (cases "setLastExitRes D h sdkPool (int_toString bn) exiter
               (int_toString (slippageBsp params))
               (isSameAddress D (TokenInfo.address tokenOut) (Some (NATIVE_ASSET_ADDRESS D)))
               (if rest = [] then Some (formatAddressForSor D (TokenInfo.address tokenOut)) else None)")
            show ?thesis
              using assms(7) [OF exiter pool Cons tok Inr s] exiter pool Cons tok Inr s
              by (simp add: queryExit_def getSdkPool_def Let_def)
          qed
        qed
      qed
    qed
  qed
qed

lemma queryExit_no_send: "SendTransaction t d \<notin> set (snd (snd (queryExit D h params)))"
proof (cases rule: queryExit_outcome [of params D h])
  case (built exiter sdkPool a0 rest tokenOut bn h2 c2)
  have "\<forall>t d. SendTransaction t d \<notin> set ([SignerGetAddress, PoolsFind (pool_id (pool h))] @ c2)"
    using setLastExitRes_calls [OF built(6)] by auto
  then show ?thesis unfolding built(7) by (rule queryExit_finish_no_send)
qed simp_all

lemma queryExit_unset_error:
  assumes "lastExitRes (fst (snd (queryExit D h params))) = None"
  shows "\<exists>e. fst (queryExit D h params) = Inl e \<and>
           ((e = ExitConstructionFailed) =
            (\<exists>a b c u s. BuildExitExactBPTIn a b c u s \<in> set (snd (snd (queryExit D h params)))))"
proof (cases rule: queryExit_outcome [of params D h])
  case (built exiter sdkPool a0 rest tokenOut bn h2 c2)
  have "fst (snd (queryExit D h params)) = h2"
    unfolding built(7) by (rule queryExit_finish_handler)
  with assms have unset: "lastExitRes h2 = None" by simp
  obtain x where "BuildExitExactBPTIn exiter (int_toString bn) (int_toString (slippageBsp params))
      (isSameAddress D (TokenInfo.address tokenOut) (Some (NATIVE_ASSET_ADDRESS D))) x \<in> set c2"
    using setLastExitRes_calls [OF built(6)] by blast
  then have "\<exists>a b c u s. BuildExitExactBPTIn a b c u s \<in> set c2" by blast
  then show ?thesis
    unfolding built(7) queryExit_finish_unset [OF unset] by simp
qed simp_all

section \<open>Properties of the handler\<close>

subsection \<open>The pool is not in the registry\<close>

text \<open>
  Claim C2. When the registry yields no pool handle for the handler's pool id,
  \<^verbatim>\<open>queryExit\<close> fails; the builder is not called during that call; and whenever the
  lookup is made (the signer's address was resolved before it), the failure is the
  pool-not-found error.
\<close>

theorem no_pool_handle:
  assumes "pools_find D (pool_id (pool h)) = Inr None"
  shows "(\<exists>e. fst (queryExit D h params) = Inl e) \<and>
         (PoolsFind (pool_id (pool h)) \<in> set (snd (snd (queryExit D h params))) \<longrightarrow>
            fst (queryExit D h params) = Inl (PoolNotFound (pool_id (pool h)))) \<and>
         (\<forall>a b c u s. BuildExitExactBPTIn a b c u s \<notin> set (snd (snd (queryExit D h params))))"
  using assms by (cases rule: queryExit_outcome [of params D h]) simp_all

theorem no_pool_handle_witness:
  "pools_find deps_no_pool (pool_id (pool handler_fresh)) = Inr None \<and>
   PoolsFind (pool_id (pool handler_fresh))
     \<in> set (snd (snd (queryExit deps_no_pool handler_fresh params_single))) \<and>
   fst (queryExit deps_no_pool handler_fresh params_single)
     = Inl (PoolNotFound (pool_id (pool handler_fresh)))"
proof -
  have a: "pools_find deps_no_pool (pool_id (pool handler_fresh)) = Inr None"
    by (simp add: deps_no_pool_def deps_model_def)
  have b: "PoolsFind (pool_id (pool handler_fresh))
     \<in> set (snd (snd (queryExit deps_no_pool handler_fresh params_single)))"
    unfolding run_no_pool by (simp add: params_single_def signer_example_def handler_fresh_def)
  from no_pool_handle [OF a, of params_single] a b show ?thesis by blast
qed

subsection \<open>The lookup in the registry throws\<close>

text \<open>
  Claim C6, as stated, has the failure surface later as the generic construction error.
  On the concrete input below the lookup throws, and both \<^verbatim>\<open>queryExit\<close> and \<^verbatim>\<open>exit\<close>
  fail with the pool-not-found error of line 60, not with
  \<^verbatim>\<open>'Failed to construct exit.'\<close>.
\<close>

theorem registry_lookup_throws_counterexample:
  "pools_find deps_find_throws (pool_id (pool handler_fresh)) = Inl ''network error'' \<and>
   fst (queryExit deps_find_throws handler_fresh params_single)
     = Inl (PoolNotFound (pool_id pool_example)) \<and>
   fst (queryExit deps_find_throws handler_fresh params_single) \<noteq> Inl ExitConstructionFailed \<and>
   fst (exit deps_find_throws handler_fresh params_single) \<noteq> Inl ExitConstructionFailed"
proof -
  have "pools_find deps_find_throws (pool_id (pool handler_fresh)) = Inl ''network error''"
    by (simp add: deps_find_throws_def deps_model_def)
  then show ?thesis
    unfolding exit_def run_find_throws by simp
qed

text \<open>
  Claim C6, amended. When the lookup in the registry throws, the exception is caught
  and handed to the exception sink, the pool handle is unset, and \<^verbatim>\<open>queryExit\<close> fails at
  once with the pool-not-found error: the calls made are the signer's, the lookup and
  the sink's, in this order, and the handler is left as it was.
\<close>

theorem registry_lookup_throws:
  assumes "pools_find D (pool_id (pool h)) = Inl err"
  shows "PoolsFind (pool_id (pool h)) \<in> set (snd (snd (queryExit D h params))) \<longrightarrow>
           queryExit D h params =
             (Inl (PoolNotFound (pool_id (pool h))), h,
              [SignerGetAddress, PoolsFind (pool_id (pool h)), CaptureBalancerException err])"
  using assms by (cases rule: queryExit_outcome [of params D h]) simp_all

theorem registry_lookup_throws_witness:
  "pools_find deps_find_throws (pool_id (pool handler_fresh)) = Inl ''network error'' \<and>
   PoolsFind (pool_id (pool handler_fresh))
     \<in> set (snd (snd (queryExit deps_find_throws handler_fresh params_single))) \<and>
   queryExit deps_find_throws handler_fresh params_single =
     (Inl (PoolNotFound (pool_id (pool handler_fresh))), handler_fresh,
      [SignerGetAddress, PoolsFind (pool_id (pool handler_fresh)),
       CaptureBalancerException ''network error''])"
proof -
  have a: "pools_find deps_find_throws (pool_id (pool handler_fresh)) = Inl ''network error''"
    by (simp add: deps_find_throws_def deps_model_def)
  have b: "PoolsFind (pool_id (pool handler_fresh))
     \<in> set (snd (snd (queryExit deps_find_throws handler_fresh params_single)))"
    unfolding run_find_throws by (simp add: handler_fresh_def)
  from registry_lookup_throws [OF a, of params_single] a b show ?thesis by blast
qed

subsection \<open>The readiness flag\<close>

text \<open>
  Claim C9. Every output that \<^verbatim>\<open>queryExit\<close> returns has \<^verbatim>\<open>txReady\<close> set, in the
  single-output branch and in the multi-output branch.
\<close>

theorem queryExit_txReady:
  "fst (queryExit D h params) = Inr out \<Longrightarrow> txReady out"
proof (cases rule: queryExit_outcome [of params D h])
  case (built exiter sdkPool a0 rest tokenOut bn h2 c2)
  assume "fst (queryExit D h params) = Inr out"
  then show ?thesis unfolding built(7) by (rule queryExit_finish_txReady)
qed simp_all

theorem queryExit_txReady_witness:
  "fst (queryExit (deps_returning response_single) handler_fresh params_single) =
     Inr \<lparr>QueryOutput.amountsOut = [USDC \<mapsto> ''5.0''], priceImpact = ''0.001'', txReady = True\<rparr> \<and>
   txReady \<lparr>QueryOutput.amountsOut = [USDC \<mapsto> ''5.0''], priceImpact = ''0.001'', txReady = True\<rparr>"
proof -
  have a: "fst (queryExit (deps_returning response_single) handler_fresh params_single) =
     Inr \<lparr>QueryOutput.amountsOut = [USDC \<mapsto> ''5.0''], priceImpact = ''0.001'', txReady = True\<rparr>"
    by (simp add: run_single)
  from queryExit_txReady [OF a] a show ?thesis by blast
qed

subsection \<open>Exit without a pending result\<close>

text \<open>
  Claim C3, as stated, has \<^verbatim>\<open>exit\<close> fail with the no-exit-constructed error whenever no
  pending result exists after the query. On a fresh handler whose pool the registry
  does not have, no pending result exists after the query, and \<^verbatim>\<open>exit\<close> fails with the
  pool-not-found error that the query threw.
\<close>

theorem exit_without_pending_result_counterexample:
  "lastExitRes (fst (snd (queryExit deps_no_pool handler_fresh params_single))) = None \<and>
   fst (exit deps_no_pool handler_fresh params_single) = Inl (PoolNotFound (pool_id pool_example)) \<and>
   fst (exit deps_no_pool handler_fresh params_single) \<noteq> Inl ExitConstructionFailed"
  unfolding exit_def run_no_pool
  by (simp add: params_single_def signer_example_def handler_fresh_def)

text \<open>
  Claim C3, amended. When no pending result exists after the query that \<^verbatim>\<open>exit\<close> runs
  again, \<^verbatim>\<open>exit\<close> fails with the error of that query and leaves what the query left, and
  the transaction-submission service is not called. The error is the no-exit-constructed
  error exactly when the query got as far as calling the builder.
\<close>

theorem exit_without_pending_result:
  assumes "lastExitRes (fst (snd (queryExit D h params))) = None"
  shows "\<exists>e. exit D h params = (Inl e, snd (queryExit D h params)) \<and>
           fst (queryExit D h params) = Inl e \<and>
           (\<forall>t d. SendTransaction t d \<notin> set (snd (snd (exit D h params)))) \<and>
           ((e = ExitConstructionFailed) =
            (\<exists>a b c u s. BuildExitExactBPTIn a b c u s \<in> set (snd (snd (exit D h params)))))"
proof -
  obtain e where e: "fst (queryExit D h params) = Inl e"
    and b: "(e = ExitConstructionFailed) =
            (\<exists>a b c u s. BuildExitExactBPTIn a b c u s \<in> set (snd (snd (queryExit D h params))))"
    using queryExit_unset_error [OF assms] by blast
  have x: "exit D h params = (Inl e, snd (queryExit D h params))"
    using e by (cases "queryExit D h params") (auto simp: exit_def)
  show ?thesis
    using e b queryExit_no_send [of _ _ D h params] by (auto simp: x)
qed

theorem exit_without_pending_result_witness:
  "lastExitRes (fst (snd (queryExit deps_build_throws handler_fresh params_single))) = None \<and>
   fst (exit deps_build_throws handler_fresh params_single) = Inl ExitConstructionFailed"
proof -
  have a: "lastExitRes (fst (snd (queryExit deps_build_throws handler_fresh params_single))) = None"
    unfolding run_build_throws by (simp add: handler_fresh_def)
  have b: "fst (queryExit deps_build_throws handler_fresh params_single) = Inl ExitConstructionFailed"
    unfolding run_build_throws by simp
  from exit_without_pending_result [OF a] a b show ?thesis by auto
qed

subsection \<open>Which requested token is looked up\<close>

text \<open>
  Claim C10, as stated, has the token-not-found error raised if and only if the first
  requested token is missing from the token map. On the input below the exit is
  multi-output and the first requested token is missing, yet the error is the
  pool-not-found error: the registry has no such pool, and that test comes first.
\<close>

theorem token_check_counterexample:
  "1 < length (ExitParams.amountsOut params_multi_first_missing) \<and>
   selectByAddress deps_no_pool (tokenInfo params_multi_first_missing)
     (AmountOut.address (hd (ExitParams.amountsOut params_multi_first_missing))) = None \<and>
   fst (queryExit deps_no_pool handler_fresh params_multi_first_missing)
     = Inl (PoolNotFound (pool_id pool_example))"
proof -
  have "selectByAddress_model [(USDC, \<lparr>TokenInfo.address = USDC, TokenInfo.decimals = 6\<rparr>)] DAI = None"
    by (simp add: model_eval)
  then show ?thesis
    unfolding run_no_pool
    by (simp add: params_multi_first_missing_def params_multi_def signer_example_def
        deps_no_pool_def deps_model_def)
qed

text \<open>
  Claim C10, amended. For every multi-output exit, \<^verbatim>\<open>queryExit\<close> raises the
  token-not-found error if and only if the signer's address and the pool handle were
  resolved and the first requested token is missing from the token map. No other
  requested token is looked up: with the second token missing the query succeeds
  (\<open>run_second_missing\<close>).
\<close>

theorem token_check_first_only:
  assumes "1 < length (ExitParams.amountsOut params)"
  shows "(\<exists>a ks. fst (queryExit D h params) = Inl (TokenNotFound a ks)) =
         ((\<exists>exiter. getAddress (signer params) = Inr exiter) \<and>
          (\<exists>sdkPool. pools_find D (pool_id (pool h)) = Inr (Some sdkPool)) \<and>
          selectByAddress D (tokenInfo params)
            (AmountOut.address (hd (ExitParams.amountsOut params))) = None)"
proof (cases rule: queryExit_outcome [of params D h])
  case (built exiter sdkPool a0 rest tokenOut bn h2 c2)
  have "fst (queryExit D h params) \<noteq> Inl (TokenNotFound a ks)" for a ks
    unfolding built(7) using queryExit_finish_error by fastforce
  then show ?thesis using built(1-4) by simp
qed (use assms in simp_all)

theorem token_check_first_only_witness:
  "1 < length (ExitParams.amountsOut params_multi_first_missing) \<and>
   (\<exists>a ks. fst (queryExit (deps_returning response_multi) handler_fresh params_multi_first_missing)
      = Inl (TokenNotFound a ks))"
proof -
  have l: "1 < length (ExitParams.amountsOut params_multi_first_missing)"
    by (simp add: params_multi_first_missing_def params_multi_def)
  have "selectByAddress_model [(USDC, \<lparr>TokenInfo.address = USDC, TokenInfo.decimals = 6\<rparr>)] DAI = None"
    by (simp add: model_eval)
  then have r: "(\<exists>exiter. getAddress (signer params_multi_first_missing) = Inr exiter) \<and>
      (\<exists>sdkPool. pools_find (deps_returning response_multi) (pool_id (pool handler_fresh))
         = Inr (Some sdkPool)) \<and>
      selectByAddress (deps_returning response_multi) (tokenInfo params_multi_first_missing)
        (AmountOut.address (hd (ExitParams.amountsOut params_multi_first_missing))) = None"
    by (simp add: params_multi_first_missing_def params_multi_def signer_example_def
        deps_returning_def deps_model_def)
  from token_check_first_only [OF l, of "deps_returning response_multi" handler_fresh] l r
  show ?thesis by blast
qed

subsection \<open>The single-output amount\<close>

text \<open>
  Claim C8. \<^verbatim>\<open>formatFixed\<close> being the library's, a successful single-output query whose
  token has 6 decimals and for which the SDK returned the raw amount \<^verbatim>\<open>5000000\<close> returns
  the amounts map with \<^verbatim>\<open>"5.0"\<close> at that token's address, whatever the BPT amount; the
  concrete input after it has the BPT amount \<^verbatim>\<open>"10.0"\<close>.
\<close>

theorem single_output_example:
  assumes fmt: "formatFixed D = formatFixed_ethers"
    and ok: "fst (queryExit D h params) = Inr out"
    and single: "ExitParams.amountsOut params = [requested]"
    and tok: "selectByAddress D (tokenInfo params) (AmountOut.address requested) = Some tokenOut"
    and dec: "TokenInfo.decimals tokenOut = 6"
    and res: "lastExitRes (fst (snd (queryExit D h params))) = Some res"
    and raw: "js_index (expectedAmountsOut res)
                (indexOfAddress D
                   (removeAddress D (Pool.address (pool h))
                      (assets (exitPoolRequest (attributes res))))
                   (formatAddressForSor D (TokenInfo.address tokenOut))) = Some ''5000000''"
  shows "QueryOutput.amountsOut out = [TokenInfo.address tokenOut \<mapsto> ''5.0'']"
proof (cases rule: queryExit_outcome [of params D h])
  case (built exiter sdkPool a0 rest tokenOut' bn h2 c2)
  from built(3,4) single tok have eq: "a0 = requested" "rest = []" "tokenOut' = tokenOut" by simp_all
  have h2: "fst (snd (queryExit D h params)) = h2"
    unfolding built(7) by (rule queryExit_finish_handler)
  with res have r: "lastExitRes h2 = Some res" by simp
  have p: "pool h2 = pool h" by (rule setLastExitRes_pool [OF built(6)])
  from ok have "fst (queryExit_finish D h2 sdkPool tokenOut True (int_toString bn)
                 (formatAddressForSor D (TokenInfo.address tokenOut))
                 ([SignerGetAddress, PoolsFind (pool_id (pool h))] @ c2)) = Inr out"
    unfolding built(7) eq by simp
  from queryExit_finish_single [OF this r]
  show ?thesis
    by (simp add: getSingleAmountOut_def p raw fmt dec formatFixed_usdc)
qed (use ok single in simp_all)

theorem single_output_example_witness:
  "formatFixed (deps_returning response_single) = formatFixed_ethers \<and>
   bptIn params_single = ''10.0'' \<and>
   ExitParams.amountsOut params_single = [\<lparr>AmountOut.address = USDC, amount_value = ''0''\<rparr>] \<and>
   TokenInfo.decimals \<lparr>TokenInfo.address = USDC, TokenInfo.decimals = 6\<rparr> = 6 \<and>
   (\<exists>out. fst (queryExit (deps_returning response_single) handler_fresh params_single) = Inr out \<and>
      QueryOutput.amountsOut out = [USDC \<mapsto> ''5.0''])"
proof -
  let ?D = "deps_returning response_single"
  let ?out = "\<lparr>QueryOutput.amountsOut = [USDC \<mapsto> ''5.0''], priceImpact = ''0.001'', txReady = True\<rparr>"
  let ?tok = "\<lparr>TokenInfo.address = USDC, TokenInfo.decimals = 6\<rparr>"
  have fmt: "formatFixed ?D = formatFixed_ethers"
    by (simp add: deps_returning_def deps_model_def)
  have ok: "fst (queryExit ?D handler_fresh params_single) = Inr ?out"
    by (simp add: run_single)
  have single: "ExitParams.amountsOut params_single = [\<lparr>AmountOut.address = USDC, amount_value = ''0''\<rparr>]"
    by (simp add: params_single_def)
  have tok: "selectByAddress ?D (tokenInfo params_single)
               (AmountOut.address \<lparr>AmountOut.address = USDC, amount_value = ''0''\<rparr>) = Some ?tok"
    by (simp add: params_single_def tokenInfo_example_def model_eval)
  have dec: "TokenInfo.decimals ?tok = 6" by simp
  have res: "lastExitRes (fst (snd (queryExit ?D handler_fresh params_single))) = Some response_single"
    by (simp add: run_single)
  have raw: "js_index (expectedAmountsOut response_single)
                (indexOfAddress ?D
                   (removeAddress ?D (Pool.address (pool handler_fresh))
                      (assets (exitPoolRequest (attributes response_single))))
                   (formatAddressForSor ?D (TokenInfo.address ?tok))) = Some ''5000000''"
    by (simp add: response_single_def handler_fresh_def pool_example_def model_eval)
  have b: "bptIn params_single = ''10.0''" by (simp add: params_single_def)
  from single_output_example [OF fmt ok single tok dec res raw] fmt ok single b
  show ?thesis by simp
qed

text \<open>
  A successful single-output query returns one entry, keyed by the \<^verbatim>\<open>address\<close> field of
  the token that the token map gave for the requested address.
\<close>

lemma single_output_one_entry:
  assumes ok: "fst (queryExit D h params) = Inr out"
    and single: "ExitParams.amountsOut params = [requested]"
  shows "\<exists>tokenOut v. selectByAddress D (tokenInfo params) (AmountOut.address requested) = Some tokenOut \<and>
           QueryOutput.amountsOut out = [TokenInfo.address tokenOut \<mapsto> v]"
proof (cases rule: queryExit_outcome [of params D h])
  case (built exiter sdkPool a0 rest tokenOut bn h2 c2)
  from built(3) single have eq: "a0 = requested" "rest = []" by simp_all
  obtain res where r: "lastExitRes h2 = Some res"
    using ok queryExit_finish_success unfolding built(7) by fastforce
  from ok have "fst (queryExit_finish D h2 sdkPool tokenOut True (int_toString bn)
                 (formatAddressForSor D (TokenInfo.address tokenOut))
                 ([SignerGetAddress, PoolsFind (pool_id (pool h))] @ c2)) = Inr out"
    unfolding built(7) eq by simp
  from queryExit_finish_single [OF this r]
  have "\<exists>v. [TokenInfo.address tokenOut \<mapsto> v] = QueryOutput.amountsOut out"
    by (auto simp: getSingleAmountOut_def split: sum.splits)
  then obtain v where "QueryOutput.amountsOut out = [TokenInfo.address tokenOut \<mapsto> v]"
    by (auto dest: sym)
  with built(4) show ?thesis unfolding eq by blast
qed (use ok single in simp_all)

text \<open>
  Claim C4. The key is the address as the token map stores it: \<^verbatim>\<open>getSingleAmountOut\<close>
  does not apply \<^verbatim>\<open>getAddress\<close>, which \<^verbatim>\<open>getAmountsOut\<close> does. With a token map that
  spells the address of USDC in lower case, the single entry of the result is keyed in
  lower case, and the result has nothing at the checksummed address of the token.
\<close>

theorem single_output_key_as_stored:
  "fst (queryExit (deps_returning response_single) handler_fresh params_single_lower) =
     Inr \<lparr>QueryOutput.amountsOut = [''0xa0b86991c6218b36c1d19d4a2e9eb0ce3606eb48'' \<mapsto> ''5.0''],
          priceImpact = ''0.001'', txReady = True\<rparr> \<and>
   getAddress_ethers (deps_returning response_single)
     (AmountOut.address (hd (ExitParams.amountsOut params_single_lower)))
     = Inr ''0xA0b86991c6218b36c1d19D4a2e9Eb0cE3606eB48'' \<and>
   [''0xa0b86991c6218b36c1d19d4a2e9eb0ce3606eb48'' \<mapsto> ''5.0'']
     ''0xA0b86991c6218b36c1d19D4a2e9Eb0cE3606eB48'' = None"
proof -
  have "getAddress_table USDC = Inr ''0xA0b86991c6218b36c1d19D4a2e9Eb0cE3606eB48''"
    by (simp add: model_eval)
  then show ?thesis
    unfolding run_lower
    by (simp add: params_single_lower_def params_single_def deps_returning_def deps_model_def)
qed

subsection \<open>A builder that throws\<close>

text \<open>
  When the builder throws, whatever it is asked, \<^verbatim>\<open>queryExit\<close> leaves the handler as it
  was: \<^verbatim>\<open>lastExitRes\<close> is unset afterwards only if it was unset before.
\<close>

lemma queryExit_build_throws_handler:
  assumes "pools_find D (pool_id (pool h)) = Inr (Some sdkPool)"
    and "\<And>a b c u s. \<exists>err. buildExitExactBPTIn sdkPool a b c u s = Inl err"
  shows "fst (snd (queryExit D h params)) = h"
proof (cases rule: queryExit_outcome [of params D h])
  case (built exiter sdkPool' a0 rest tokenOut bn h2 c2)
  from built(2) assms(1) have "sdkPool' = sdkPool" by simp
  with built(6) assms(2) have "h2 = h"
    by (auto simp: setLastExitRes_def Let_def split: sum.splits) (metis Inl_Inr_False)
  then show ?thesis unfolding built(7) by (simp add: queryExit_finish_handler)
qed simp_all

text \<open>
  Claim C1. A first query, for the two-token exit, succeeds and leaves its response in
  the handler. In a second query, for USDC alone, the builder throws: the exception
  goes to the sink, the response of the first query is still the pending result, the
  query returns amounts read from it, and \<^verbatim>\<open>exit\<close> submits the transaction of the first
  query.
\<close>

theorem failed_build_keeps_stale_result:
  "fst (snd (queryExit (deps_returning response_multi) handler_fresh params_multi)) = handler_stale \<and>
   lastExitRes handler_stale = Some response_multi \<and>
   CaptureBalancerException ''BAL#000''
     \<in> set (snd (snd (queryExit deps_build_throws handler_stale params_single))) \<and>
   lastExitRes (fst (snd (queryExit deps_build_throws handler_stale params_single)))
     = Some response_multi \<and>
   fst (queryExit deps_build_throws handler_stale params_single) =
     Inr \<lparr>QueryOutput.amountsOut = [USDC \<mapsto> ''5.0''], priceImpact = ''0.001'', txReady = True\<rparr> \<and>
   fst (exit deps_build_throws handler_stale params_single) = Inr ''sent:0x8bdb3913aa'' \<and>
   SendTransaction (to response_multi) (data response_multi)
     \<in> set (snd (snd (exit deps_build_throws handler_stale params_single)))"
  unfolding exit_def run_multi run_stale
  by (simp add: handler_stale_def response_multi_def params_single_def signer_example_def)

subsection \<open>The keys of a multi-output result\<close>

lemma getAmountsOut_forEach_dom:
  assumes "getAmountsOut_forEach D allTokens tokensOut acc i amounts = Inr m"
  shows "dom m = dom acc \<union>
           {a. \<exists>j < length amounts. \<exists>t.
                 find (\<lambda>poolToken. isSameAddress D (PoolToken.address poolToken)
                         (js_index tokensOut (i + int j))) allTokens = Some t \<and>
                 getAddress_ethers D (PoolToken.address t) = Inr a}"
  using assms
proof (induction amounts arbitrary: acc i)
  case Nil
  then show ?case by simp
next
  case (Cons amount rest)
  let ?P = "\<lambda>k a. \<exists>t. find (\<lambda>poolToken. isSameAddress D (PoolToken.address poolToken)
                              (js_index tokensOut k)) allTokens = Some t \<and>
                      getAddress_ethers D (PoolToken.address t) = Inr a"
  have shift: "{a. \<exists>j < length (amount # rest). ?P (i + int j) a} =
               {a. ?P i a} \<union> {a. \<exists>j < length rest. ?P (i + 1 + int j) a}"
  proof -
    have "(\<exists>j < Suc n. Q (i + int j)) = (Q i \<or> (\<exists>j < n. Q (i + 1 + int j)))" for n and Q :: "int \<Rightarrow> bool"
    proof
      assume "\<exists>j < Suc n. Q (i + int j)"
      then obtain j where j: "j < Suc n" "Q (i + int j)" by blast
      show "Q i \<or> (\<exists>j < n. Q (i + 1 + int j))"
      proof (cases j)
        case 0
        with j show ?thesis by simp
      next
        case (Suc k)
        with j have "k < n" "Q (i + 1 + int k)" by (simp_all add: algebra_simps)
        then show ?thesis by blast
      qed
    next
      assume "Q i \<or> (\<exists>j < n. Q (i + 1 + int j))"
      then show "\<exists>j < Suc n. Q (i + int j)"
      proof
        assume "Q i"
        then have "Q (i + int 0)" by simp
        then show ?thesis by blast
      next
        assume "\<exists>j < n. Q (i + 1 + int j)"
        then obtain j where "j < n" "Q (i + 1 + int j)" by blast
        then have "Suc j < Suc n" "Q (i + int (Suc j))" by (simp_all add: algebra_simps)
        then show ?thesis by blast
      qed
    qed
    from this [of "length rest" "\<lambda>k. ?P k a" for a] show ?thesis by auto
  qed
  define S where "S = {a. \<exists>j < length rest. ?P (i + 1 + int j) a}"
  define S0 where "S0 = {a. ?P i a}"
  note shift' = shift [folded S_def S0_def]
  show ?case
  proof (cases "find (\<lambda>poolToken. isSameAddress D (PoolToken.address poolToken)
                        (js_index tokensOut i)) allTokens")
    case None
    with Cons.prems have "getAmountsOut_forEach D allTokens tokensOut acc (i + 1) rest = Inr m"
      by simp
    from Cons.IH [OF this] have "dom m = dom acc \<union> S" by (simp add: S_def)
    moreover have "S0 = {}" using None by (simp add: S0_def)
    ultimately show ?thesis unfolding shift' by simp
  next
    case (Some token)
    with Cons.prems obtain realAddress scaledAmount where
      ra: "getAddress_ethers D (PoolToken.address token) = Inr realAddress"
      and rec: "getAmountsOut_forEach D allTokens tokensOut (acc(realAddress \<mapsto> scaledAmount))
                  (i + 1) rest = Inr m"
      by (auto split: sum.splits)
    have "dom (\<lambda>a. if a = realAddress then Some scaledAmount else acc a)
            = insert realAddress (dom acc)"
      by (auto simp: dom_def)
    with Cons.IH [OF rec] have "dom m = insert realAddress (dom acc) \<union> S"
      by (simp add: S_def fun_upd_def)
    moreover have "S0 = {realAddress}" using Some ra by (auto simp: S0_def)
    ultimately show ?thesis unfolding shift' by blast
  qed
qed

text \<open>
  Where the SDK's assets are the pool's tokens and there is an amount for each, the
  keys are the addresses of the pool's tokens, in canonical form. With an amount for
  the first asset only, the result has the first token alone (\<open>run_short\<close>).
\<close>

lemma multi_output_keys_example:
  "fst (queryExit (deps_returning response_multi) handler_fresh params_multi) =
     Inr \<lparr>QueryOutput.amountsOut = [DAI \<mapsto> ''5.0'', USDC \<mapsto> ''5.0''], priceImpact = ''0.001'',
          txReady = True\<rparr> \<and>
   dom [DAI \<mapsto> ''5.0'', USDC \<mapsto> ''5.0'']
     = set (nonBptTokenAddresses (deps_returning response_multi) (pool handler_fresh))"
proof -
  have "nonBptTokenAddresses (deps_returning response_multi) (pool handler_fresh) = [DAI, USDC]"
    by (simp add: nonBptTokenAddresses_def handler_fresh_def pool_example_def model_eval)
  then show ?thesis
    unfolding run_multi by auto
qed

text \<open>
  Claim C5, as stated, has the keys of a multi-output result be the addresses of the
  pool's tokens other than its own. In the exit below, from a pool of DAI and WETH
  towards the native asset and DAI, the SDK's assets name the zero address in the
  place of WETH; no token of the pool matches it, and the result has DAI alone.
\<close>

theorem multi_output_keys_counterexample:
  "1 < length (ExitParams.amountsOut params_native) \<and>
   fst (queryExit (deps_returning response_native) handler_weth params_native) =
     Inr \<lparr>QueryOutput.amountsOut = [DAI \<mapsto> ''5.0''], priceImpact = ''0.001'', txReady = True\<rparr> \<and>
   set (nonBptTokenAddresses (deps_returning response_native) (pool handler_weth)) = {DAI, WETH} \<and>
   dom [DAI \<mapsto> ''5.0''] \<noteq> {DAI, WETH}"
proof -
  have "nonBptTokenAddresses (deps_returning response_native) (pool handler_weth) = [DAI, WETH]"
    by (simp add: nonBptTokenAddresses_def handler_weth_def pool_weth_def model_eval)
  moreover have "WETH \<noteq> DAI" by (simp add: WETH_def DAI_def)
  ultimately show ?thesis
    unfolding run_native by (auto simp: params_native_def)
qed

text \<open>
  Claim C5, amended. The keys of a successful multi-output result are the canonical
  addresses of the tokens of the pool's flattened token tree that are found, by
  \<^verbatim>\<open>isSameAddress\<close>, for the entries of the SDK's asset list with the pool's own address
  removed, one entry for each expected amount, by position.
\<close>

theorem multi_output_keys:
  assumes ok: "fst (queryExit D h params) = Inr out"
    and multi: "length (ExitParams.amountsOut params) \<noteq> 1"
    and res: "lastExitRes (fst (snd (queryExit D h params))) = Some res"
  shows "dom (QueryOutput.amountsOut out) =
           {a. \<exists>j < length (expectedAmountsOut res). \<exists>t.
                 find (\<lambda>poolToken. isSameAddress D (PoolToken.address poolToken)
                         (js_index (removeAddress D (Pool.address (pool h))
                                      (assets (exitPoolRequest (attributes res)))) (int j)))
                   (flatTokenTree D (pool h)) = Some t \<and>
                 getAddress_ethers D (PoolToken.address t) = Inr a}"
proof (cases rule: queryExit_outcome [of params D h])
  case (built exiter sdkPool a0 rest tokenOut bn h2 c2)
  from built(3) multi have rest: "(rest = []) = False" by simp
  have h2: "fst (snd (queryExit D h params)) = h2"
    unfolding built(7) by (rule queryExit_finish_handler)
  with res have r: "lastExitRes h2 = Some res" by simp
  have p: "pool h2 = pool h" by (rule setLastExitRes_pool [OF built(6)])
  from ok have "fst (queryExit_finish D h2 sdkPool tokenOut False (int_toString bn)
                 (formatAddressForSor D (TokenInfo.address tokenOut))
                 ([SignerGetAddress, PoolsFind (pool_id (pool h))] @ c2)) = Inr out"
    unfolding built(7) rest by simp
  from queryExit_finish_multi [OF this r]
  have "getAmountsOut_forEach D (flatTokenTree D (pool h))
          (removeAddress D (Pool.address (pool h)) (assets (exitPoolRequest (attributes res))))
          Map.empty 0 (expectedAmountsOut res) = Inr (QueryOutput.amountsOut out)"
    by (simp add: getAmountsOut_def p)
  from getAmountsOut_forEach_dom [OF this] show ?thesis by simp
qed (use ok in simp_all)

theorem multi_output_keys_witness:
  "fst (queryExit (deps_returning response_multi) handler_fresh params_multi) =
     Inr \<lparr>QueryOutput.amountsOut = [DAI \<mapsto> ''5.0'', USDC \<mapsto> ''5.0''], priceImpact = ''0.001'',
          txReady = True\<rparr> \<and>
   length (ExitParams.amountsOut params_multi) \<noteq> 1 \<and>
   lastExitRes (fst (snd (queryExit (deps_returning response_multi) handler_fresh params_multi)))
     = Some response_multi \<and>
   dom [DAI \<mapsto> ''5.0'', USDC \<mapsto> ''5.0''] =
     {a. \<exists>j < length (expectedAmountsOut response_multi). \<exists>t.
           find (\<lambda>poolToken. isSameAddress (deps_returning response_multi)
                   (PoolToken.address poolToken)
                   (js_index (removeAddress (deps_returning response_multi)
                                (Pool.address (pool handler_fresh))
                                (assets (exitPoolRequest (attributes response_multi)))) (int j)))
             (flatTokenTree (deps_returning response_multi) (pool handler_fresh)) = Some t \<and>
           getAddress_ethers (deps_returning response_multi) (PoolToken.address t) = Inr a}"
proof -
  let ?out = "\<lparr>QueryOutput.amountsOut = [DAI \<mapsto> ''5.0'', USDC \<mapsto> ''5.0''], priceImpact = ''0.001'',
          txReady = True\<rparr>"
  have ok: "fst (queryExit (deps_returning response_multi) handler_fresh params_multi) = Inr ?out"
    by (simp add: run_multi)
  have multi: "length (ExitParams.amountsOut params_multi) \<noteq> 1"
    by (simp add: params_multi_def)
  have res: "lastExitRes (fst (snd (queryExit (deps_returning response_multi) handler_fresh params_multi)))
     = Some response_multi"
    unfolding run_multi by (simp add: handler_stale_def)
  from multi_output_keys [OF ok multi res] ok multi res show ?thesis by simp
qed

end
